theory Spec2Isabelle
  imports Complex_Main "HOL-Library.Sublist"
begin

section \<open>Numbers and strings\<close>

text \<open>
  The engine \<^verbatim>\<open>ThermoEngine\<close> of \<^verbatim>\<open>src/App.jsx\<close> computes with JavaScript numbers.
  It is modelled first on \<^typ>\<open>real\<close>: every finite number is a real, arithmetic is
  exact, and the rounding of IEEE doubles is not represented. The only operation of the
  engine that can leave the finite numbers from finite operands is a division by zero, so
  a division whose divisor is not a literal is modelled by \<open>js_div\<close>, which returns
  \<open>None\<close> exactly there; the functions that divide return an option. A second
  transcription, on real numbers together with \<^verbatim>\<open>NaN\<close> and the two infinities, follows
  the first; on real arguments the two agree.
\<close>

definition EPS :: real where
  "EPS = 1 / 100000"

definition js_div :: "real \<Rightarrow> real \<Rightarrow> real option" where
  "js_div x y = (if y = 0 then None else Some (x / y))"

text \<open>
  \<^verbatim>\<open>Math.pow(b, e)\<close>. Every call of the engine has a base \<open>b \<ge> 0\<close> (the guards before the
  call bound the temperature), where it is the real power \<open>b powr e\<close>, with
  \<^verbatim>\<open>Math.pow(0, e) = 0\<close> for \<open>e > 0\<close>.
\<close>

definition Math_pow :: "real \<Rightarrow> real \<Rightarrow> real" where
  "Math_pow b e = b powr e"

text \<open>\<^verbatim>\<open>Math.round(x)\<close> is the integer nearest to \<open>x\<close>, a tie going up.\<close>

definition Math_round :: "real \<Rightarrow> int" where
  "Math_round x = \<lfloor>x + 1 / 2\<rfloor>"

text \<open>
  Strings are byte lists; the four non-ASCII letters of the phase names and region labels
  are written as their UTF-8 bytes.
\<close>

definition u_alpha :: string where
  "u_alpha = [CHR 0xCE, CHR 0xB1]"

definition u_gamma :: string where
  "u_gamma = [CHR 0xCE, CHR 0xB3]"

definition u_delta :: string where
  "u_delta = [CHR 0xCE, CHR 0xB4]"

definition u_sub3 :: string where
  "u_sub3 = [CHR 0xE2, CHR 0x82, CHR 0x83]"

text \<open>\<^verbatim>\<open>s.includes(t)\<close>: \<open>t\<close> occurs in \<open>s\<close> as a contiguous run.\<close>

definition str_includes :: "string \<Rightarrow> string \<Rightarrow> bool" where
  "str_includes s t = sublist t s"

text \<open>The phase names \<^verbatim>\<open>'Ferrite (\<alpha>)'\<close>, \<^verbatim>\<open>'Austenite (\<gamma>)'\<close>,
  \<^verbatim>\<open>'Delta Ferrite (\<delta>)'\<close> and \<^verbatim>\<open>'Cementite (Fe\<^sub>3C)'\<close>.\<close>

definition Ferrite :: string where
  "Ferrite = ''Ferrite ('' @ u_alpha @ '')''"

definition Austenite :: string where
  "Austenite = ''Austenite ('' @ u_gamma @ '')''"

definition Delta_Ferrite :: string where
  "Delta_Ferrite = ''Delta Ferrite ('' @ u_delta @ '')''"

definition Cementite :: string where
  "Cementite = ''Cementite (Fe'' @ u_sub3 @ ''C)''"

section \<open>Boundary curves\<close>

definition c_alpha :: "real \<Rightarrow> real" where
  "c_alpha T =
     (if T > 912 then 0
      else if T \<ge> 727 then 0.022 * ((912 - T) / 185)
      else 0.022 * Math_pow (max 0 T / 727) 3)"

definition c_a3 :: "real \<Rightarrow> real" where
  "c_a3 T =
     (if T > 912 \<or> T < 727 then 0.76
      else 0.76 * Math_pow ((912 - T) / 185) 1.2)"

definition c_acm :: "real \<Rightarrow> real" where
  "c_acm T =
     (if T < 727 then 0.76
      else if T > 1147 then 2.11
      else 0.76 + (2.11 - 0.76) * Math_pow ((T - 727) / 420) 1.4)"

definition c_solidus :: "real \<Rightarrow> real" where
  "c_solidus T =
     (if T < 1147 then 2.11
      else if T > 1495 then 0.17
      else 0.17 + (2.11 - 0.17) * Math_pow ((1495 - T) / 348) 0.85)"

definition c_liquidus :: "real \<Rightarrow> real" where
  "c_liquidus T =
     (if T < 1147 then 4.3
      else if T > 1495 then 0.53
      else 0.53 + (4.3 - 0.53) * Math_pow ((1495 - T) / 348) 0.85)"

definition c_l_fe3c :: "real \<Rightarrow> real" where
  "c_l_fe3c T =
     (if T < 1147 then 4.3
      else 4.3 + (6.67 - 4.3) * ((T - 1147) / 103))"

definition c_delta_solidus :: "real \<Rightarrow> real" where
  "c_delta_solidus T =
     (if T < 1394 \<or> T > 1538 then 0
      else if T \<ge> 1495 then 0.09 * ((1538 - T) / 43)
      else 0.09 * ((T - 1394) / 101))"

definition c_delta_liquidus :: "real \<Rightarrow> real" where
  "c_delta_liquidus T =
     (if T < 1495 \<or> T > 1538 then 0
      else 0.53 * ((1538 - T) / 43))"

section \<open>The state solver\<close>

record phase_fraction =
  name :: string
  frac :: real
  pos :: real

record properties =
  micro :: string
  crystal :: string
  yield :: int
  uts :: int
  hardness :: int
  elong :: int

record thermo_state = properties +
  regionId :: string
  regionLabel :: string
  fractions :: "phase_fraction list"
  isQuenched :: bool
  msTemp :: "real option"

text \<open>
  The closures \<^verbatim>\<open>lever\<close> and \<^verbatim>\<open>single\<close> of \<^verbatim>\<open>getState\<close> assign the outer variable
  \<^verbatim>\<open>regionId\<close> and return the fractions; here they return both, and take the captured
  \<^verbatim>\<open>safeC\<close> as their first argument. The outer variable \<^verbatim>\<open>phases\<close> is assigned and never
  read, and is left out.
\<close>

definition lever ::
  "real \<Rightarrow> string \<Rightarrow> string \<Rightarrow> string \<Rightarrow> real \<Rightarrow> real \<Rightarrow> (string \<times> phase_fraction list) option" where
  "lever safeC rid name1 name2 c1 c2 =
     (let span = c2 - c1 in
      if span < EPS then Some (rid, [\<lparr>name = name1, frac = 100, pos = c1\<rparr>])
      else
        (case js_div (safeC - c1) span of
           None \<Rightarrow> None
         | Some q \<Rightarrow>
             (let w2 = q * 100; w1 = 100 - w2 in
              Some (rid,
                [\<lparr>name = name1, frac = max 0 (min 100 w1), pos = c1\<rparr>,
                 \<lparr>name = name2, frac = max 0 (min 100 w2), pos = c2\<rparr>]))))"

definition single :: "real \<Rightarrow> string \<Rightarrow> string \<Rightarrow> (string \<times> phase_fraction list) option" where
  "single safeC rid nm = Some (rid, [\<lparr>name = nm, frac = 100, pos = safeC\<rparr>])"

text \<open>The region tree of \<^verbatim>\<open>getState\<close> (the cascade on \<^verbatim>\<open>safeT\<close> and \<^verbatim>\<open>safeC\<close>).\<close>

definition equilibrium :: "real \<Rightarrow> real \<Rightarrow> (string \<times> phase_fraction list) option" where
  "equilibrium safeC safeT =
     (if safeT \<ge> 1394 then
        (if safeT \<ge> 1538 then single safeC ''L'' ''Liquid''
         else if safeT \<ge> 1495 then
           (let cd_s = c_delta_solidus safeT;
                cd_l = c_delta_liquidus safeT in
            if safeC \<le> cd_s then single safeC ''delta'' Delta_Ferrite
            else if safeC > cd_s \<and> safeC < cd_l
              then lever safeC ''delta_L'' Delta_Ferrite ''Liquid'' cd_s cd_l
            else single safeC ''L'' ''Liquid'')
         else
           (let cd_s = c_delta_solidus safeT;
                c_perit_gamma = 0.17 * ((safeT - 1394) / 101);
                c_sol = c_solidus safeT;
                c_liq = c_liquidus safeT in
            if safeC \<le> cd_s then single safeC ''delta'' Delta_Ferrite
            else if safeC > cd_s \<and> safeC < c_perit_gamma
              then lever safeC ''delta_gamma'' Delta_Ferrite Austenite cd_s c_perit_gamma
            else if safeC \<ge> c_perit_gamma \<and> safeC \<le> c_sol
              then single safeC ''gamma'' Austenite
            else if safeC > c_sol \<and> safeC < c_liq
              then lever safeC ''gamma_L'' Austenite ''Liquid'' c_sol c_liq
            else if safeC \<ge> c_liq \<and> safeC \<le> c_l_fe3c safeT
              then single safeC ''L'' ''Liquid''
            else lever safeC ''L_Fe3C'' ''Liquid'' Cementite (c_l_fe3c safeT) 6.67))
      else if safeT > 1147 then
        (let c_sol = c_solidus safeT;
             c_liq = c_liquidus safeT;
             c_lf = c_l_fe3c safeT in
         if safeC \<le> c_sol then single safeC ''gamma'' Austenite
         else if safeC > c_sol \<and> safeC < c_liq
           then lever safeC ''gamma_L'' Austenite ''Liquid'' c_sol c_liq
         else if safeC \<ge> c_liq \<and> safeC \<le> c_lf then single safeC ''L'' ''Liquid''
         else lever safeC ''L_Fe3C'' ''Liquid'' Cementite c_lf 6.67)
      else if safeT > 727 then
        (let c_a3_val = c_a3 safeT;
             c_acm_val = c_acm safeT;
             c_al = c_alpha safeT in
         if safeC \<le> c_al then single safeC ''alpha'' Ferrite
         else if safeC > c_al \<and> safeC \<le> c_a3_val
           then lever safeC ''alpha_gamma'' Ferrite Austenite c_al c_a3_val
         else if safeC > c_a3_val \<and> safeC \<le> c_acm_val
           then single safeC ''gamma'' Austenite
         else lever safeC ''gamma_Fe3C'' Austenite Cementite c_acm_val 6.67)
      else
        (let c_al = c_alpha safeT in
         if safeC \<le> c_al then single safeC ''alpha'' Ferrite
         else lever safeC ''alpha_Fe3C'' Ferrite Cementite c_al 6.67))"

text \<open>\<^verbatim>\<open>fractions.reduce((sum, f) => sum + f.frac, 0)\<close> and the renormalisation that
  follows it.\<close>

definition total_frac :: "phase_fraction list \<Rightarrow> real" where
  "total_frac fs = foldl (\<lambda>sum f. sum + frac f) 0 fs"

fun rescale :: "real \<Rightarrow> phase_fraction list \<Rightarrow> phase_fraction list option" where
  "rescale tot [] = Some []"
| "rescale tot (f # fs) =
     (case js_div (frac f) tot of
        None \<Rightarrow> None
      | Some q \<Rightarrow>
          (case rescale tot fs of
             None \<Rightarrow> None
           | Some fs' \<Rightarrow> Some (f\<lparr>frac := q * 100\<rparr> # fs')))"

definition renormalize :: "phase_fraction list \<Rightarrow> phase_fraction list option" where
  "renormalize fs =
     (let tot = total_frac fs in
      if \<bar>tot - 100\<bar> > EPS then rescale tot fs else Some fs)"

text \<open>The cascade that derives \<^verbatim>\<open>regionLabel\<close>.\<close>

definition region_label :: "bool \<Rightarrow> string \<Rightarrow> real \<Rightarrow> string" where
  "region_label quenched rid safeC =
     (if quenched then ''Martensitic (Quenched)''
      else if rid = ''L'' then ''Liquid Melt''
      else if rid = ''gamma'' then ''Austenite Field ('' @ u_gamma @ '')''
      else if rid = ''alpha'' then ''Ferrite Field ('' @ u_alpha @ '')''
      else if rid = ''delta'' then ''Delta Ferrite ('' @ u_delta @ '')''
      else if rid = ''gamma_L'' then ''Mushy Zone (L + '' @ u_gamma @ '')''
      else if rid = ''delta_L'' then ''Mushy Zone (L + '' @ u_delta @ '')''
      else if rid = ''delta_gamma''
        then ''Two-Phase ('' @ u_delta @ '' + '' @ u_gamma @ '')''
      else if rid = ''alpha_gamma''
        then ''Intercritical ('' @ u_alpha @ '' + '' @ u_gamma @ '')''
      else if rid = ''gamma_Fe3C''
        then (if safeC < 2.11 then ''Austenite + Cementite'' else ''Austenite + Ledeburite'')
      else if rid = ''alpha_Fe3C''
        then (if safeC < 0.76 then ''Hypoeutectoid ('' @ u_alpha @ '' + P)''
              else if \<bar>safeC - 0.76\<bar> < 0.02 then ''Eutectoid (Pearlite)''
              else if safeC \<le> 2.11 then ''Hypereutectoid (P + Fe'' @ u_sub3 @ ''C)''
              else ''Cast Iron (White)'')
      else if rid = ''L_Fe3C'' then ''Liquid + Cementite''
      else ''Unknown Region'')"

text \<open>\<^verbatim>\<open>fractions.find(f => f.name.includes(t))?.frac / 100 || 0\<close>: the fraction of the
  first phase whose name contains \<open>t\<close>, as a share of one, and 0 when there is none.\<close>

definition share_of :: "string \<Rightarrow> phase_fraction list \<Rightarrow> real" where
  "share_of t fs =
     (case find (\<lambda>f. str_includes (name f) t) fs of
        None \<Rightarrow> 0
      | Some f \<Rightarrow> frac f / 100)"

definition predictProperties ::
  "real \<Rightarrow> real \<Rightarrow> phase_fraction list \<Rightarrow> bool \<Rightarrow> properties" where
  "predictProperties c T fs quenched =
     (if T > 1495 then
        \<lparr>micro = ''Uniform Liquid'', crystal = ''Amorphous'',
         yield = 0, uts = 0, hardness = 0, elong = 100\<rparr>
      else if quenched then
        (let yieldStr = 1000 + 2000 * c;
             hard = 300 + 500 * c;
             u = yieldStr * 1.1 + hard * 0.4;
             el = max 1 (15 - c * 15) in
         \<lparr>micro = (if c < 0.6 then ''Lath Martensite'' else ''Plate Martensite''),
          crystal = ''Body-Centered Tetragonal (BCT)'',
          yield = Math_round yieldStr, uts = Math_round u,
          hardness = Math_round hard, elong = Math_round el\<rparr>)
      else if T > 727 then
        \<lparr>micro = ''Austenitic / High Temp phases'', crystal = ''FCC Dominant'',
         yield = Math_round 50, uts = Math_round 120,
         hardness = Math_round 40, elong = Math_round 45\<rparr>
      else
        (let fAlpha = share_of ''Ferrite'' fs;
             fFe3C = share_of ''Cementite'' fs;
             yieldStr = fAlpha * 150 + fFe3C * 1200;
             hard = fAlpha * 80 + fFe3C * 800;
             u = yieldStr * 1.35 + hard * 0.5;
             el = max 1 (fAlpha * 40 + fFe3C * 2) in
         \<lparr>micro =
            (if c < 0.02 then ''Equiaxed Ferrite''
             else if \<bar>c - 0.76\<bar> < 0.02 then ''100% Pearlite (Lamellar)''
             else if c < 0.76 then ''Proeutectoid Ferrite + Pearlite''
             else if c \<le> 2.11 then ''Proeutectoid Cementite Network + Pearlite''
             else if \<bar>c - 4.3\<bar> < 0.05 then ''Ledeburite (Eutectic)''
             else ''Primary Cementite + Transformed Ledeburite''),
          crystal = ''BCC + Orthorhombic'',
          yield = Math_round yieldStr, uts = Math_round u,
          hardness = Math_round hard, elong = Math_round el\<rparr>))"

text \<open>The clamps of the inputs, the martensite start temperature and the
  Koistinen-Marburger fraction, as \<^verbatim>\<open>getState\<close> computes them.\<close>

definition safe_carbon :: "real \<Rightarrow> real" where
  "safe_carbon c = max 0 (min 6.67 c)"

definition safe_temp :: "real \<Rightarrow> real" where
  "safe_temp T = max 0 T"

definition ms_of :: "real \<Rightarrow> real" where
  "ms_of safeC = 539 - 423 * safeC"

definition fm_of :: "real \<Rightarrow> real \<Rightarrow> real" where
  "fm_of safeC safeT = max 0 (min 1 (1 - exp (- 0.011 * (ms_of safeC - safeT))))"

definition quench_cond :: "real \<Rightarrow> real \<Rightarrow> real \<Rightarrow> bool" where
  "quench_cond rate safeC safeT \<longleftrightarrow> rate \<ge> 50 \<and> safeC < 2.0 \<and> safeT < ms_of safeC"

definition martensite_fractions :: "real \<Rightarrow> real \<Rightarrow> phase_fraction list" where
  "martensite_fractions safeC safeT =
     (let fm = fm_of safeC safeT in
      [\<lparr>name = ''Martensite (BCT)'', frac = fm * 100, pos = safeC\<rparr>,
       \<lparr>name = ''Retained Austenite'', frac = (1 - fm) * 100, pos = safeC\<rparr>])"

text \<open>
  The second half of \<^verbatim>\<open>getState\<close>, from the quench test to the returned object: given
  the region and the renormalised fractions of the equilibrium diagram, the martensite
  override, the label, the predicted properties and the result.
\<close>

definition finish_state ::
  "real \<Rightarrow> real \<Rightarrow> real \<Rightarrow> string \<Rightarrow> phase_fraction list \<Rightarrow> thermo_state" where
  "finish_state safeC safeT rate rid0 fr1 =
     (let quenched = quench_cond rate safeC safeT;
          rid = (if quenched then ''martensite'' else rid0);
          fr = (if quenched then martensite_fractions safeC safeT else fr1);
          p = predictProperties safeC safeT fr quenched in
      \<lparr>micro = micro p, crystal = crystal p, yield = yield p, uts = uts p,
       hardness = hardness p, elong = elong p,
       regionId = rid,
       regionLabel = region_label quenched rid safeC,
       fractions = fr,
       isQuenched = quenched,
       msTemp = (if safeC < 2.0 then Some (ms_of safeC) else None)\<rparr>)"

definition getState :: "real \<Rightarrow> real \<Rightarrow> real \<Rightarrow> thermo_state option" where
  "getState c T rate =
     (let safeC = safe_carbon c; safeT = safe_temp T in
      case equilibrium safeC safeT of
        None \<Rightarrow> None
      | Some (rid0, fr0) \<Rightarrow>
          (case renormalize fr0 of
             None \<Rightarrow> None
           | Some fr1 \<Rightarrow> Some (finish_state safeC safeT rate rid0 fr1)))"

section \<open>Auxiliary notions\<close>

text \<open>The region identifiers of the equilibrium diagram, and what every leaf of the
  region tree delivers: one of them, with fractions that add up to 100.\<close>

definition equilibrium_ids :: "string set" where
  "equilibrium_ids =
     {''L'', ''delta'', ''delta_L'', ''delta_gamma'', ''gamma'', ''gamma_L'',
      ''L_Fe3C'', ''alpha'', ''alpha_gamma'', ''gamma_Fe3C'', ''alpha_Fe3C''}"

definition sound_result :: "(string \<times> phase_fraction list) option \<Rightarrow> bool" where
  "sound_result r =
     (case r of
        None \<Rightarrow> False
      | Some (rid, fr) \<Rightarrow> rid \<in> equilibrium_ids \<and> total_frac fr = 100)"

section \<open>The solver on all JavaScript numbers\<close>

text \<open>
  A JavaScript caller can also pass \<^verbatim>\<open>NaN\<close>, \<^verbatim>\<open>Infinity\<close> and \<^verbatim>\<open>-Infinity\<close>. The type
  \<open>number\<close> adds them to the reals, and the operations below follow IEEE 754 on
  them, still without rounding: \<^verbatim>\<open>NaN\<close> is absorbing and compares false with everything,
  the infinities carry a sign. A zero is not signed; where the sign of a zero decides
  (a division by zero) it is read as \<open>+0\<close>. The engine is transcribed a second time on
  this type, name by name with the suffix \<open>_num\<close>.
\<close>

datatype number = NaN | NegInf | Num real | PosInf

fun num_neg :: "number \<Rightarrow> number" where
  "num_neg NaN = NaN"
| "num_neg NegInf = PosInf"
| "num_neg (Num x) = Num (- x)"
| "num_neg PosInf = NegInf"

fun num_add :: "number \<Rightarrow> number \<Rightarrow> number" where
  "num_add (Num a) (Num b) = Num (a + b)"
| "num_add NaN _ = NaN"
| "num_add _ NaN = NaN"
| "num_add PosInf NegInf = NaN"
| "num_add NegInf PosInf = NaN"
| "num_add PosInf _ = PosInf"
| "num_add _ PosInf = PosInf"
| "num_add NegInf _ = NegInf"
| "num_add _ NegInf = NegInf"

definition num_sub :: "number \<Rightarrow> number \<Rightarrow> number" where
  "num_sub a b = num_add a (num_neg b)"

fun num_negative :: "number \<Rightarrow> bool" where
  "num_negative NegInf = True"
| "num_negative (Num x) = (x < 0)"
| "num_negative _ = False"

fun num_mul :: "number \<Rightarrow> number \<Rightarrow> number" where
  "num_mul (Num a) (Num b) = Num (a * b)"
| "num_mul NaN _ = NaN"
| "num_mul _ NaN = NaN"
| "num_mul a b =
     (if a = Num 0 \<or> b = Num 0 then NaN
      else if num_negative a = num_negative b then PosInf else NegInf)"

fun num_div :: "number \<Rightarrow> number \<Rightarrow> number" where
  "num_div NaN _ = NaN"
| "num_div _ NaN = NaN"
| "num_div (Num a) (Num b) =
     (if b \<noteq> 0 then Num (a / b)
      else if a = 0 then NaN else if a < 0 then NegInf else PosInf)"
| "num_div (Num a) _ = Num 0"
| "num_div a (Num b) = (if num_negative a = (b < 0) then PosInf else NegInf)"
| "num_div _ _ = NaN"

text \<open>The comparisons \<^verbatim>\<open><\<close>, \<^verbatim>\<open><=\<close>, \<^verbatim>\<open>>\<close> and \<^verbatim>\<open>>=\<close>.\<close>

fun num_lt :: "number \<Rightarrow> number \<Rightarrow> bool" where
  "num_lt NaN _ = False"
| "num_lt _ NaN = False"
| "num_lt (Num a) (Num b) = (a < b)"
| "num_lt PosInf _ = False"
| "num_lt _ PosInf = True"
| "num_lt _ NegInf = False"
| "num_lt NegInf _ = True"

definition num_le :: "number \<Rightarrow> number \<Rightarrow> bool" where
  "num_le a b \<longleftrightarrow> a \<noteq> NaN \<and> b \<noteq> NaN \<and> \<not> num_lt b a"

definition num_gt :: "number \<Rightarrow> number \<Rightarrow> bool" where
  "num_gt a b = num_lt b a"

definition num_ge :: "number \<Rightarrow> number \<Rightarrow> bool" where
  "num_ge a b = num_le b a"

text \<open>\<^verbatim>\<open>Math.max\<close>, \<^verbatim>\<open>Math.min\<close>, \<^verbatim>\<open>Math.abs\<close>, \<^verbatim>\<open>Math.exp\<close> and \<^verbatim>\<open>Math.round\<close>.\<close>

definition Math_max :: "number \<Rightarrow> number \<Rightarrow> number" where
  "Math_max a b = (if a = NaN \<or> b = NaN then NaN else if num_lt a b then b else a)"

definition Math_min :: "number \<Rightarrow> number \<Rightarrow> number" where
  "Math_min a b = (if a = NaN \<or> b = NaN then NaN else if num_lt b a then b else a)"

fun Math_abs :: "number \<Rightarrow> number" where
  "Math_abs NaN = NaN"
| "Math_abs (Num x) = Num \<bar>x\<bar>"
| "Math_abs _ = PosInf"

fun Math_exp :: "number \<Rightarrow> number" where
  "Math_exp NaN = NaN"
| "Math_exp NegInf = Num 0"
| "Math_exp (Num x) = Num (exp x)"
| "Math_exp PosInf = PosInf"

fun Math_round_num :: "number \<Rightarrow> number" where
  "Math_round_num (Num x) = Num (of_int (Math_round x))"
| "Math_round_num n = n"

text \<open>
  \<^verbatim>\<open>Math.pow(b, e)\<close> for an exponent \<open>e > 0\<close>, as all exponents of the engine are. A
  negative base has a power only for an integer exponent.
\<close>

fun Math_pow_num :: "number \<Rightarrow> real \<Rightarrow> number" where
  "Math_pow_num NaN e = NaN"
| "Math_pow_num PosInf e = PosInf"
| "Math_pow_num NegInf e = (if e \<in> \<int> \<and> odd \<lfloor>e\<rfloor> then NegInf else PosInf)"
| "Math_pow_num (Num b) e =
     (if 0 \<le> b then Num (Math_pow b e)
      else if e \<in> \<int> then Num (b powi \<lfloor>e\<rfloor>) else NaN)"

subsection \<open>Boundary curves\<close>

definition c_alpha_num :: "number \<Rightarrow> number" where
  "c_alpha_num T =
     (if num_gt T (Num 912) then Num 0
      else if num_ge T (Num 727)
        then num_mul (Num 0.022) (num_div (num_sub (Num 912) T) (Num 185))
      else num_mul (Num 0.022) (Math_pow_num (num_div (Math_max (Num 0) T) (Num 727)) 3))"

definition c_a3_num :: "number \<Rightarrow> number" where
  "c_a3_num T =
     (if num_gt T (Num 912) \<or> num_lt T (Num 727) then Num 0.76
      else num_mul (Num 0.76) (Math_pow_num (num_div (num_sub (Num 912) T) (Num 185)) 1.2))"

definition c_acm_num :: "number \<Rightarrow> number" where
  "c_acm_num T =
     (if num_lt T (Num 727) then Num 0.76
      else if num_gt T (Num 1147) then Num 2.11
      else num_add (Num 0.76)
        (num_mul (num_sub (Num 2.11) (Num 0.76))
          (Math_pow_num (num_div (num_sub T (Num 727)) (Num 420)) 1.4)))"

definition c_solidus_num :: "number \<Rightarrow> number" where
  "c_solidus_num T =
     (if num_lt T (Num 1147) then Num 2.11
      else if num_gt T (Num 1495) then Num 0.17
      else num_add (Num 0.17)
        (num_mul (num_sub (Num 2.11) (Num 0.17))
          (Math_pow_num (num_div (num_sub (Num 1495) T) (Num 348)) 0.85)))"

definition c_liquidus_num :: "number \<Rightarrow> number" where
  "c_liquidus_num T =
     (if num_lt T (Num 1147) then Num 4.3
      else if num_gt T (Num 1495) then Num 0.53
      else num_add (Num 0.53)
        (num_mul (num_sub (Num 4.3) (Num 0.53))
          (Math_pow_num (num_div (num_sub (Num 1495) T) (Num 348)) 0.85)))"

definition c_l_fe3c_num :: "number \<Rightarrow> number" where
  "c_l_fe3c_num T =
     (if num_lt T (Num 1147) then Num 4.3
      else num_add (Num 4.3)
        (num_mul (num_sub (Num 6.67) (Num 4.3)) (num_div (num_sub T (Num 1147)) (Num 103))))"

definition c_delta_solidus_num :: "number \<Rightarrow> number" where
  "c_delta_solidus_num T =
     (if num_lt T (Num 1394) \<or> num_gt T (Num 1538) then Num 0
      else if num_ge T (Num 1495)
        then num_mul (Num 0.09) (num_div (num_sub (Num 1538) T) (Num 43))
      else num_mul (Num 0.09) (num_div (num_sub T (Num 1394)) (Num 101)))"

definition c_delta_liquidus_num :: "number \<Rightarrow> number" where
  "c_delta_liquidus_num T =
     (if num_lt T (Num 1495) \<or> num_gt T (Num 1538) then Num 0
      else num_mul (Num 0.53) (num_div (num_sub (Num 1538) T) (Num 43)))"

subsection \<open>The state solver\<close>

record phase_fraction_num =
  name_n :: string
  frac_n :: number
  pos_n :: number

record properties_num =
  micro_n :: string
  crystal_n :: string
  yield_n :: number
  uts_n :: number
  hardness_n :: number
  elong_n :: number

record thermo_state_num = properties_num +
  regionId_n :: string
  regionLabel_n :: string
  fractions_n :: "phase_fraction_num list"
  isQuenched_n :: bool
  msTemp_n :: "number option"

definition lever_num ::
  "number \<Rightarrow> string \<Rightarrow> string \<Rightarrow> string \<Rightarrow> number \<Rightarrow> number \<Rightarrow>
   string \<times> phase_fraction_num list" where
  "lever_num safeC rid name1 name2 c1 c2 =
     (let span = num_sub c2 c1 in
      if num_lt span (Num EPS) then (rid, [\<lparr>name_n = name1, frac_n = Num 100, pos_n = c1\<rparr>])
      else
        (let w2 = num_mul (num_div (num_sub safeC c1) span) (Num 100);
             w1 = num_sub (Num 100) w2 in
         (rid,
           [\<lparr>name_n = name1, frac_n = Math_max (Num 0) (Math_min (Num 100) w1), pos_n = c1\<rparr>,
            \<lparr>name_n = name2, frac_n = Math_max (Num 0) (Math_min (Num 100) w2), pos_n = c2\<rparr>])))"

definition single_num :: "number \<Rightarrow> string \<Rightarrow> string \<Rightarrow> string \<times> phase_fraction_num list" where
  "single_num safeC rid nm = (rid, [\<lparr>name_n = nm, frac_n = Num 100, pos_n = safeC\<rparr>])"

definition equilibrium_num :: "number \<Rightarrow> number \<Rightarrow> string \<times> phase_fraction_num list" where
  "equilibrium_num safeC safeT =
     (if num_ge safeT (Num 1394) then
        (if num_ge safeT (Num 1538) then single_num safeC ''L'' ''Liquid''
         else if num_ge safeT (Num 1495) then
           (let cd_s = c_delta_solidus_num safeT;
                cd_l = c_delta_liquidus_num safeT in
            if num_le safeC cd_s then single_num safeC ''delta'' Delta_Ferrite
            else if num_gt safeC cd_s \<and> num_lt safeC cd_l
              then lever_num safeC ''delta_L'' Delta_Ferrite ''Liquid'' cd_s cd_l
            else single_num safeC ''L'' ''Liquid'')
         else
           (let cd_s = c_delta_solidus_num safeT;
                c_perit_gamma = num_mul (Num 0.17) (num_div (num_sub safeT (Num 1394)) (Num 101));
                c_sol = c_solidus_num safeT;
                c_liq = c_liquidus_num safeT in
            if num_le safeC cd_s then single_num safeC ''delta'' Delta_Ferrite
            else if num_gt safeC cd_s \<and> num_lt safeC c_perit_gamma
              then lever_num safeC ''delta_gamma'' Delta_Ferrite Austenite cd_s c_perit_gamma
            else if num_ge safeC c_perit_gamma \<and> num_le safeC c_sol
              then single_num safeC ''gamma'' Austenite
            else if num_gt safeC c_sol \<and> num_lt safeC c_liq
              then lever_num safeC ''gamma_L'' Austenite ''Liquid'' c_sol c_liq
            else if num_ge safeC c_liq \<and> num_le safeC (c_l_fe3c_num safeT)
              then single_num safeC ''L'' ''Liquid''
            else lever_num safeC ''L_Fe3C'' ''Liquid'' Cementite (c_l_fe3c_num safeT) (Num 6.67)))
      else if num_gt safeT (Num 1147) then
        (let c_sol = c_solidus_num safeT;
             c_liq = c_liquidus_num safeT;
             c_lf = c_l_fe3c_num safeT in
         if num_le safeC c_sol then single_num safeC ''gamma'' Austenite
         else if num_gt safeC c_sol \<and> num_lt safeC c_liq
           then lever_num safeC ''gamma_L'' Austenite ''Liquid'' c_sol c_liq
         else if num_ge safeC c_liq \<and> num_le safeC c_lf then single_num safeC ''L'' ''Liquid''
         else lever_num safeC ''L_Fe3C'' ''Liquid'' Cementite c_lf (Num 6.67))
      else if num_gt safeT (Num 727) then
        (let c_a3_val = c_a3_num safeT;
             c_acm_val = c_acm_num safeT;
             c_al = c_alpha_num safeT in
         if num_le safeC c_al then single_num safeC ''alpha'' Ferrite
         else if num_gt safeC c_al \<and> num_le safeC c_a3_val
           then lever_num safeC ''alpha_gamma'' Ferrite Austenite c_al c_a3_val
         else if num_gt safeC c_a3_val \<and> num_le safeC c_acm_val
           then single_num safeC ''gamma'' Austenite
         else lever_num safeC ''gamma_Fe3C'' Austenite Cementite c_acm_val (Num 6.67))
      else
        (let c_al = c_alpha_num safeT in
         if num_le safeC c_al then single_num safeC ''alpha'' Ferrite
         else lever_num safeC ''alpha_Fe3C'' Ferrite Cementite c_al (Num 6.67)))"

definition total_frac_num :: "phase_fraction_num list \<Rightarrow> number" where
  "total_frac_num fs = foldl (\<lambda>sum f. num_add sum (frac_n f)) (Num 0) fs"

definition renormalize_num :: "phase_fraction_num list \<Rightarrow> phase_fraction_num list" where
  "renormalize_num fs =
     (let tot = total_frac_num fs in
      if num_gt (Math_abs (num_sub tot (Num 100))) (Num EPS)
      then map (\<lambda>f. f\<lparr>frac_n := num_mul (num_div (frac_n f) tot) (Num 100)\<rparr>) fs
      else fs)"

definition region_label_num :: "bool \<Rightarrow> string \<Rightarrow> number \<Rightarrow> string" where
  "region_label_num quenched rid safeC =
     (if quenched then ''Martensitic (Quenched)''
      else if rid = ''L'' then ''Liquid Melt''
      else if rid = ''gamma'' then ''Austenite Field ('' @ u_gamma @ '')''
      else if rid = ''alpha'' then ''Ferrite Field ('' @ u_alpha @ '')''
      else if rid = ''delta'' then ''Delta Ferrite ('' @ u_delta @ '')''
      else if rid = ''gamma_L'' then ''Mushy Zone (L + '' @ u_gamma @ '')''
      else if rid = ''delta_L'' then ''Mushy Zone (L + '' @ u_delta @ '')''
      else if rid = ''delta_gamma''
        then ''Two-Phase ('' @ u_delta @ '' + '' @ u_gamma @ '')''
      else if rid = ''alpha_gamma''
        then ''Intercritical ('' @ u_alpha @ '' + '' @ u_gamma @ '')''
      else if rid = ''gamma_Fe3C''
        then (if num_lt safeC (Num 2.11) then ''Austenite + Cementite''
              else ''Austenite + Ledeburite'')
      else if rid = ''alpha_Fe3C''
        then (if num_lt safeC (Num 0.76) then ''Hypoeutectoid ('' @ u_alpha @ '' + P)''
              else if num_lt (Math_abs (num_sub safeC (Num 0.76))) (Num 0.02)
                then ''Eutectoid (Pearlite)''
              else if num_le safeC (Num 2.11) then ''Hypereutectoid (P + Fe'' @ u_sub3 @ ''C)''
              else ''Cast Iron (White)'')
      else if rid = ''L_Fe3C'' then ''Liquid + Cementite''
      else ''Unknown Region'')"

text \<open>\<^verbatim>\<open>fractions.find(f => f.name.includes(t))?.frac / 100 || 0\<close>: without a match the
  quotient is \<^verbatim>\<open>undefined / 100\<close>, that is \<^verbatim>\<open>NaN\<close>, and \<^verbatim>\<open>||\<close> replaces \<^verbatim>\<open>NaN\<close> and 0
  by 0.\<close>

definition share_of_num :: "string \<Rightarrow> phase_fraction_num list \<Rightarrow> number" where
  "share_of_num t fs =
     (let v = (case find (\<lambda>f. str_includes (name_n f) t) fs of
                 None \<Rightarrow> NaN
               | Some f \<Rightarrow> num_div (frac_n f) (Num 100))
      in if v = NaN \<or> v = Num 0 then Num 0 else v)"

definition predictProperties_num ::
  "number \<Rightarrow> number \<Rightarrow> phase_fraction_num list \<Rightarrow> bool \<Rightarrow> properties_num" where
  "predictProperties_num c T fs quenched =
     (if num_gt T (Num 1495) then
        \<lparr>micro_n = ''Uniform Liquid'', crystal_n = ''Amorphous'',
         yield_n = Num 0, uts_n = Num 0, hardness_n = Num 0, elong_n = Num 100\<rparr>
      else if quenched then
        (let yieldStr = num_add (Num 1000) (num_mul (Num 2000) c);
             hard = num_add (Num 300) (num_mul (Num 500) c);
             u = num_add (num_mul yieldStr (Num 1.1)) (num_mul hard (Num 0.4));
             el = Math_max (Num 1) (num_sub (Num 15) (num_mul c (Num 15))) in
         \<lparr>micro_n = (if num_lt c (Num 0.6) then ''Lath Martensite'' else ''Plate Martensite''),
          crystal_n = ''Body-Centered Tetragonal (BCT)'',
          yield_n = Math_round_num yieldStr, uts_n = Math_round_num u,
          hardness_n = Math_round_num hard, elong_n = Math_round_num el\<rparr>)
      else if num_gt T (Num 727) then
        \<lparr>micro_n = ''Austenitic / High Temp phases'', crystal_n = ''FCC Dominant'',
         yield_n = Math_round_num (Num 50), uts_n = Math_round_num (Num 120),
         hardness_n = Math_round_num (Num 40), elong_n = Math_round_num (Num 45)\<rparr>
      else
        (let fAlpha = share_of_num ''Ferrite'' fs;
             fFe3C = share_of_num ''Cementite'' fs;
             yieldStr = num_add (num_mul fAlpha (Num 150)) (num_mul fFe3C (Num 1200));
             hard = num_add (num_mul fAlpha (Num 80)) (num_mul fFe3C (Num 800));
             u = num_add (num_mul yieldStr (Num 1.35)) (num_mul hard (Num 0.5));
             el = Math_max (Num 1) (num_add (num_mul fAlpha (Num 40)) (num_mul fFe3C (Num 2))) in
         \<lparr>micro_n =
            (if num_lt c (Num 0.02) then ''Equiaxed Ferrite''
             else if num_lt (Math_abs (num_sub c (Num 0.76))) (Num 0.02)
               then ''100% Pearlite (Lamellar)''
             else if num_lt c (Num 0.76) then ''Proeutectoid Ferrite + Pearlite''
             else if num_le c (Num 2.11) then ''Proeutectoid Cementite Network + Pearlite''
             else if num_lt (Math_abs (num_sub c (Num 4.3))) (Num 0.05)
               then ''Ledeburite (Eutectic)''
             else ''Primary Cementite + Transformed Ledeburite''),
          crystal_n = ''BCC + Orthorhombic'',
          yield_n = Math_round_num yieldStr, uts_n = Math_round_num u,
          hardness_n = Math_round_num hard, elong_n = Math_round_num el\<rparr>))"

definition safe_carbon_num :: "number \<Rightarrow> number" where
  "safe_carbon_num c = Math_max (Num 0) (Math_min (Num 6.67) c)"

definition safe_temp_num :: "number \<Rightarrow> number" where
  "safe_temp_num T = Math_max (Num 0) T"

definition ms_of_num :: "number \<Rightarrow> number" where
  "ms_of_num safeC = num_sub (Num 539) (num_mul (Num 423) safeC)"

definition fm_of_num :: "number \<Rightarrow> number \<Rightarrow> number" where
  "fm_of_num safeC safeT =
     Math_max (Num 0) (Math_min (Num 1)
       (num_sub (Num 1) (Math_exp (num_mul (Num (- 0.011)) (num_sub (ms_of_num safeC) safeT)))))"

definition quench_cond_num :: "number \<Rightarrow> number \<Rightarrow> number \<Rightarrow> bool" where
  "quench_cond_num rate safeC safeT \<longleftrightarrow>
     num_ge rate (Num 50) \<and> num_lt safeC (Num 2.0) \<and> num_lt safeT (ms_of_num safeC)"

definition martensite_fractions_num :: "number \<Rightarrow> number \<Rightarrow> phase_fraction_num list" where
  "martensite_fractions_num safeC safeT =
     (let fm = fm_of_num safeC safeT in
      [\<lparr>name_n = ''Martensite (BCT)'', frac_n = num_mul fm (Num 100), pos_n = safeC\<rparr>,
       \<lparr>name_n = ''Retained Austenite'', frac_n = num_mul (num_sub (Num 1) fm) (Num 100),
        pos_n = safeC\<rparr>])"

definition finish_state_num ::
  "number \<Rightarrow> number \<Rightarrow> number \<Rightarrow> string \<Rightarrow> phase_fraction_num list \<Rightarrow> thermo_state_num" where
  "finish_state_num safeC safeT rate rid0 fr1 =
     (let quenched = quench_cond_num rate safeC safeT;
          rid = (if quenched then ''martensite'' else rid0);
          fr = (if quenched then martensite_fractions_num safeC safeT else fr1);
          p = predictProperties_num safeC safeT fr quenched in
      \<lparr>micro_n = micro_n p, crystal_n = crystal_n p, yield_n = yield_n p, uts_n = uts_n p,
       hardness_n = hardness_n p, elong_n = elong_n p,
       regionId_n = rid,
       regionLabel_n = region_label_num quenched rid safeC,
       fractions_n = fr,
       isQuenched_n = quenched,
       msTemp_n = (if num_lt safeC (Num 2.0) then Some (ms_of_num safeC) else None)\<rparr>)"

definition getState_num :: "number \<Rightarrow> number \<Rightarrow> number \<Rightarrow> thermo_state_num" where
  "getState_num c T rate =
     (let safeC = safe_carbon_num c; safeT = safe_temp_num T in
      case equilibrium_num safeC safeT of
        (rid0, fr0) \<Rightarrow> finish_state_num safeC safeT rate rid0 (renormalize_num fr0))"

text \<open>The embedding of the states on reals into the states on numbers.\<close>

definition fraction_num :: "phase_fraction \<Rightarrow> phase_fraction_num" where
  "fraction_num f = \<lparr>name_n = name f, frac_n = Num (frac f), pos_n = Num (pos f)\<rparr>"

definition state_num :: "thermo_state \<Rightarrow> thermo_state_num" where
  "state_num s =
     \<lparr>micro_n = micro s, crystal_n = crystal s,
      yield_n = Num (of_int (yield s)), uts_n = Num (of_int (uts s)),
      hardness_n = Num (of_int (hardness s)), elong_n = Num (of_int (elong s)),
      regionId_n = regionId s, regionLabel_n = regionLabel s,
      fractions_n = map fraction_num (fractions s),
      isQuenched_n = isQuenched s,
      msTemp_n = map_option Num (msTemp s)\<rparr>"

definition result_num :: "string \<times> phase_fraction list \<Rightarrow> string \<times> phase_fraction_num list" where
  "result_num r = (fst r, map fraction_num (snd r))"

definition properties_num_of :: "properties \<Rightarrow> properties_num" where
  "properties_num_of p =
     \<lparr>micro_n = micro p, crystal_n = crystal p,
      yield_n = Num (of_int (yield p)), uts_n = Num (of_int (uts p)),
      hardness_n = Num (of_int (hardness p)), elong_n = Num (of_int (elong p))\<rparr>"

section \<open>The boundary curves stay in range\<close>

lemma Math_pow_unit:
  "0 \<le> e \<Longrightarrow> 0 \<le> b \<Longrightarrow> b \<le> 1 \<Longrightarrow> 0 \<le> Math_pow b e \<and> Math_pow b e \<le> 1"
  unfolding Math_pow_def by (simp add: powr_le1)

lemma c_alpha_bounds: "0 \<le> c_alpha T \<and> c_alpha T \<le> 0.022"
proof -
  have "0 \<le> Math_pow (max 0 T / 727) 3 \<and> Math_pow (max 0 T / 727) 3 \<le> 1" if "T < 727"
    using that by (intro Math_pow_unit) auto
  then show ?thesis unfolding c_alpha_def by auto
qed

lemma c_a3_bounds: "0 \<le> c_a3 T \<and> c_a3 T \<le> 0.76"
proof -
  have "0 \<le> Math_pow ((912 - T) / 185) 1.2 \<and> Math_pow ((912 - T) / 185) 1.2 \<le> 1"
    if "727 \<le> T" "T \<le> 912"
    using that by (intro Math_pow_unit) auto
  then show ?thesis unfolding c_a3_def by auto
qed

lemma c_acm_bounds: "0.76 \<le> c_acm T \<and> c_acm T \<le> 2.11"
proof -
  have "0 \<le> Math_pow ((T - 727) / 420) 1.4 \<and> Math_pow ((T - 727) / 420) 1.4 \<le> 1"
    if "727 \<le> T" "T \<le> 1147"
    using that by (intro Math_pow_unit) auto
  then show ?thesis unfolding c_acm_def by auto
qed

lemma c_solidus_bounds: "0.17 \<le> c_solidus T \<and> c_solidus T \<le> 2.11"
proof -
  have "0 \<le> Math_pow ((1495 - T) / 348) 0.85 \<and> Math_pow ((1495 - T) / 348) 0.85 \<le> 1"
    if "1147 \<le> T" "T \<le> 1495"
    using that by (intro Math_pow_unit) auto
  then show ?thesis unfolding c_solidus_def by auto
qed

lemma c_liquidus_bounds: "0.53 \<le> c_liquidus T \<and> c_liquidus T \<le> 4.3"
proof -
  have "0 \<le> Math_pow ((1495 - T) / 348) 0.85 \<and> Math_pow ((1495 - T) / 348) 0.85 \<le> 1"
    if "1147 \<le> T" "T \<le> 1495"
    using that by (intro Math_pow_unit) auto
  then show ?thesis unfolding c_liquidus_def by auto
qed

lemma c_l_fe3c_lower: "4.3 \<le> c_l_fe3c T"
  unfolding c_l_fe3c_def by auto

lemma c_l_fe3c_upper: "T \<le> 1250 \<Longrightarrow> c_l_fe3c T \<le> 6.67"
  unfolding c_l_fe3c_def by auto

lemma c_l_fe3c_beyond: "1250 < T \<Longrightarrow> 6.67 < c_l_fe3c T"
  unfolding c_l_fe3c_def by auto

lemma c_delta_solidus_bounds: "0 \<le> c_delta_solidus T \<and> c_delta_solidus T \<le> 0.09"
  unfolding c_delta_solidus_def by auto

lemma c_delta_liquidus_bounds: "0 \<le> c_delta_liquidus T \<and> c_delta_liquidus T \<le> 0.53"
  unfolding c_delta_liquidus_def by auto

text \<open>Seven of the curves stay between 0 and 6.67 at every temperature; the liquid and
  cementite boundary does so up to 1250 degrees, where it is 6.67.\<close>

lemma seven_curves_in_range:
  "(0 \<le> c_alpha T \<and> c_alpha T \<le> 6.67) \<and>
   (0 \<le> c_a3 T \<and> c_a3 T \<le> 6.67) \<and>
   (0 \<le> c_acm T \<and> c_acm T \<le> 6.67) \<and>
   (0 \<le> c_solidus T \<and> c_solidus T \<le> 6.67) \<and>
   (0 \<le> c_liquidus T \<and> c_liquidus T \<le> 6.67) \<and>
   (0 \<le> c_delta_solidus T \<and> c_delta_solidus T \<le> 6.67) \<and>
   (0 \<le> c_delta_liquidus T \<and> c_delta_liquidus T \<le> 6.67)"
  using c_alpha_bounds [of T] c_a3_bounds [of T] c_acm_bounds [of T] c_solidus_bounds [of T]
    c_liquidus_bounds [of T] c_delta_solidus_bounds [of T] c_delta_liquidus_bounds [of T]
  by auto

lemma c_l_fe3c_1250: "c_l_fe3c 1250 = 6.67"
  by (simp add: c_l_fe3c_def)

section \<open>The lever rule and the region tree\<close>

lemma total_frac_one: "total_frac [f] = frac f"
  by (simp add: total_frac_def)

lemma total_frac_two: "total_frac [f, g] = frac f + frac g"
  by (simp add: total_frac_def)

lemma clamp_pair_sum: "max 0 (min 100 (100 - w)) + max 0 (min 100 w) = (100::real)"
  by (simp add: max_def min_def)

text \<open>The division of \<^verbatim>\<open>lever\<close> is reached with a span of at least \<open>EPS\<close> only, so it
  never fails.\<close>

lemma lever_cases:
  "lever safeC rid name1 name2 c1 c2 =
     (if c2 - c1 < EPS then Some (rid, [\<lparr>name = name1, frac = 100, pos = c1\<rparr>])
      else Some (rid,
        [\<lparr>name = name1, frac = max 0 (min 100 (100 - (safeC - c1) / (c2 - c1) * 100)),
          pos = c1\<rparr>,
         \<lparr>name = name2, frac = max 0 (min 100 ((safeC - c1) / (c2 - c1) * 100)),
          pos = c2\<rparr>]))"
  by (simp add: lever_def js_div_def EPS_def Let_def)

lemma lever_sound:
  "\<exists>fr. lever safeC rid name1 name2 c1 c2 = Some (rid, fr) \<and> total_frac fr = 100"
  by (simp add: lever_cases total_frac_one total_frac_two clamp_pair_sum)

lemma single_sound:
  "\<exists>fr. single safeC rid nm = Some (rid, fr) \<and> total_frac fr = 100"
  by (simp add: single_def total_frac_one)

lemma sound_lever:
  "rid \<in> equilibrium_ids \<Longrightarrow> sound_result (lever safeC rid name1 name2 c1 c2)"
  using lever_sound [of safeC rid name1 name2 c1 c2] by (auto simp: sound_result_def)

lemma sound_single:
  "rid \<in> equilibrium_ids \<Longrightarrow> sound_result (single safeC rid nm)"
  using single_sound [of safeC rid nm] by (auto simp: sound_result_def)

lemma sound_if:
  "(b \<Longrightarrow> sound_result x) \<Longrightarrow> (\<not> b \<Longrightarrow> sound_result y) \<Longrightarrow>
   sound_result (if b then x else y)"
  by simp

lemma equilibrium_sound: "sound_result (equilibrium safeC safeT)"
  unfolding equilibrium_def Let_def
  by (intro sound_if sound_lever sound_single) (simp_all add: equilibrium_ids_def)

section \<open>The solver\<close>

lemma renormalize_exact: "total_frac fs = 100 \<Longrightarrow> renormalize fs = Some fs"
  by (simp add: renormalize_def EPS_def)

text \<open>The renormalisation itself: whatever fractions it is given, if their total is not
  zero it returns fractions whose total is within \<open>EPS\<close> of 100.\<close>

lemma foldl_frac: "foldl (\<lambda>sum f. sum + frac f) a fs = a + sum_list (map frac fs)"
  by (induction fs arbitrary: a) simp_all

lemma total_frac_sum_list: "total_frac fs = sum_list (map frac fs)"
  by (simp add: total_frac_def foldl_frac)

lemma rescale_sum:
  "tot \<noteq> 0 \<Longrightarrow>
   \<exists>fs'. rescale tot fs = Some fs' \<and> total_frac fs' = total_frac fs / tot * 100"
proof (induction fs)
  case Nil
  then show ?case by (simp add: total_frac_sum_list)
next
  case (Cons f fs)
  then obtain fs' where "rescale tot fs = Some fs'"
    and "total_frac fs' = total_frac fs / tot * 100" by blast
  with Cons.prems show ?case
    by (simp add: js_div_def total_frac_sum_list add_divide_distrib distrib_right)
qed

lemma renormalize_sum:
  assumes "total_frac fs \<noteq> 0"
  shows "\<exists>fs'. renormalize fs = Some fs' \<and> \<bar>total_frac fs' - 100\<bar> \<le> EPS"
proof (cases "\<bar>total_frac fs - 100\<bar> > EPS")
  case True
  with rescale_sum [OF assms, of fs] assms show ?thesis
    by (auto simp: renormalize_def EPS_def)
next
  case False
  then show ?thesis by (simp add: renormalize_def)
qed

lemma getState_finish:
  assumes "equilibrium (safe_carbon c) (safe_temp T) = Some (rid0, fr0)"
    and "total_frac fr0 = 100"
  shows "getState c T rate = Some (finish_state (safe_carbon c) (safe_temp T) rate rid0 fr0)"
  using assms by (simp add: getState_def renormalize_exact Let_def)

lemma getState_ex:
  obtains rid0 fr0 where
    "equilibrium (safe_carbon c) (safe_temp T) = Some (rid0, fr0)"
    "rid0 \<in> equilibrium_ids" "total_frac fr0 = 100"
    "getState c T rate = Some (finish_state (safe_carbon c) (safe_temp T) rate rid0 fr0)"
proof -
  from equilibrium_sound [of "safe_carbon c" "safe_temp T"]
  obtain rid0 fr0 where e: "equilibrium (safe_carbon c) (safe_temp T) = Some (rid0, fr0)"
    and r: "rid0 \<in> equilibrium_ids" and t: "total_frac fr0 = 100"
    by (auto simp: sound_result_def split: option.splits)
  from getState_finish [OF e t] e r t that show thesis by blast
qed

lemma finish_state_fields:
  "isQuenched (finish_state safeC safeT rate rid0 fr1) = quench_cond rate safeC safeT"
  "regionId (finish_state safeC safeT rate rid0 fr1) =
     (if quench_cond rate safeC safeT then ''martensite'' else rid0)"
  "fractions (finish_state safeC safeT rate rid0 fr1) =
     (if quench_cond rate safeC safeT then martensite_fractions safeC safeT else fr1)"
  "regionLabel (finish_state safeC safeT rate rid0 fr1) =
     region_label (quench_cond rate safeC safeT)
       (if quench_cond rate safeC safeT then ''martensite'' else rid0) safeC"
  by (simp_all add: finish_state_def Let_def)

lemma martensite_total: "total_frac (martensite_fractions safeC safeT) = 100"
  by (simp add: martensite_fractions_def Let_def total_frac_two algebra_simps)

lemma label_known:
  "quenched \<or> rid \<in> equilibrium_ids \<Longrightarrow>
   region_label quenched rid safeC \<noteq> ''Unknown Region''"
  by (auto simp: region_label_def equilibrium_ids_def)

section \<open>Two sample points of the diagram\<close>

text \<open>The point \<open>(0.41, 750)\<close>: the power \<open>(162 / 185)\<^sup>6\<^sup>/\<^sup>5\<close> is bounded through its fifth power.\<close>

lemma pow_six_fifths_bounds:
  "0.852 < Math_pow (162 / 185) 1.2 \<and> Math_pow (162 / 185) 1.2 < 0.8535"
proof -
  let ?y = "(162 / 185 :: real) powr 1.2"
  have y5: "?y ^ 5 = (162 / 185) ^ 6"
  proof -
    have "?y ^ 5 = (162 / 185 :: real) powr (of_nat 5 * 1.2)"
      by (rule powr_power) simp
    also have "\<dots> = (162 / 185 :: real) powr 6" by simp
    also have "\<dots> = (162 / 185) ^ 6" by simp
    finally show ?thesis .
  qed
  have lo: "(0.852 :: real) ^ 5 < ?y ^ 5" unfolding y5 by (simp add: power_divide)
  have hi: "?y ^ 5 < (0.8535 :: real) ^ 5" unfolding y5 by (simp add: power_divide)
  have "0.852 < ?y" using lo by (rule power_less_imp_less_base) simp
  moreover have "?y < 0.8535" using hi by (rule power_less_imp_less_base) simp
  ultimately show ?thesis by (simp add: Math_pow_def)
qed

lemma c_alpha_750: "c_alpha 750 = 0.022 * (162 / 185)"
  by (simp add: c_alpha_def)

lemma c_a3_750: "0.6475 < c_a3 750 \<and> c_a3 750 < 0.6487"
  using pow_six_fifths_bounds by (simp add: c_a3_def)

lemma equilibrium_750:
  "equilibrium 0.41 750 = Some (''alpha_gamma'',
     [\<lparr>name = Ferrite,
       frac = 100 - (0.41 - c_alpha 750) / (c_a3 750 - c_alpha 750) * 100,
       pos = c_alpha 750\<rparr>,
      \<lparr>name = Austenite,
       frac = (0.41 - c_alpha 750) / (c_a3 750 - c_alpha 750) * 100,
       pos = c_a3 750\<rparr>])"
proof -
  let ?w = "(0.41 - c_alpha 750) / (c_a3 750 - c_alpha 750) * 100"
  have a: "c_alpha 750 < 0.02" "0.019 < c_alpha 750" by (simp_all add: c_alpha_750)
  have b: "0.647 < c_a3 750" "c_a3 750 < 0.649"
    using c_a3_750 by simp_all
  have span: "\<not> c_a3 750 - c_alpha 750 < EPS" using a b by (simp add: EPS_def)
  have w: "0 \<le> ?w" "?w \<le> 100" using a b by (simp_all add: field_simps)
  have "equilibrium 0.41 750 =
      lever 0.41 ''alpha_gamma'' Ferrite Austenite (c_alpha 750) (c_a3 750)"
    using a b by (simp add: equilibrium_def Let_def)
  then show ?thesis using span w by (simp add: lever_cases)
qed

lemma austenite_share_750:
  "62 < (0.41 - c_alpha 750) / (c_a3 750 - c_alpha 750) * 100 \<and>
   (0.41 - c_alpha 750) / (c_a3 750 - c_alpha 750) * 100 < 63"
proof -
  have a: "c_alpha 750 = 0.022 * (162 / 185)" by (rule c_alpha_750)
  have b: "0.6475 < c_a3 750" "c_a3 750 < 0.6487" using c_a3_750 by simp_all
  have pos: "0 < c_a3 750 - c_alpha 750" using b by (simp add: a)
  have "62 * (c_a3 750 - c_alpha 750) < (0.41 - c_alpha 750) * 100"
    using b by (simp add: a)
  moreover have "(0.41 - c_alpha 750) * 100 < 63 * (c_a3 750 - c_alpha 750)"
    using b by (simp add: a)
  ultimately show ?thesis using pos by (simp add: field_simps)
qed

lemma getState_750:
  "getState 0.41 750 0 = Some (finish_state 0.41 750 0 ''alpha_gamma''
     [\<lparr>name = Ferrite,
       frac = 100 - (0.41 - c_alpha 750) / (c_a3 750 - c_alpha 750) * 100,
       pos = c_alpha 750\<rparr>,
      \<lparr>name = Austenite,
       frac = (0.41 - c_alpha 750) / (c_a3 750 - c_alpha 750) * 100,
       pos = c_a3 750\<rparr>])"
proof -
  define w where "w = (0.41 - c_alpha 750) / (c_a3 750 - c_alpha 750) * 100"
  let ?fr = "[\<lparr>name = Ferrite, frac = 100 - w, pos = c_alpha 750\<rparr>,
              \<lparr>name = Austenite, frac = w, pos = c_a3 750\<rparr>]"
  have c: "safe_carbon 0.41 = 0.41" "safe_temp 750 = 750"
    by (simp_all add: safe_carbon_def safe_temp_def)
  have e: "equilibrium (safe_carbon 0.41) (safe_temp 750) = Some (''alpha_gamma'', ?fr)"
    unfolding c w_def by (rule equilibrium_750)
  have t: "total_frac ?fr = 100" by (simp add: total_frac_two)
  show ?thesis
    using getState_finish [OF e t, of 0] unfolding c w_def .
qed

lemma not_quenched_750: "\<not> quench_cond 0 0.41 750"
  by (simp add: quench_cond_def)

text \<open>The eutectoid composition at 700 degrees.\<close>

lemma c_alpha_700: "c_alpha 700 = 0.022 * (700 / 727) ^ 3"
  by (simp add: c_alpha_def Math_pow_def)

lemma equilibrium_eutectoid:
  "equilibrium 0.76 700 = Some (''alpha_Fe3C'',
     [\<lparr>name = Ferrite,
       frac = 100 - (0.76 - c_alpha 700) / (6.67 - c_alpha 700) * 100,
       pos = c_alpha 700\<rparr>,
      \<lparr>name = Cementite,
       frac = (0.76 - c_alpha 700) / (6.67 - c_alpha 700) * 100,
       pos = 6.67\<rparr>])"
proof -
  have a: "0 \<le> c_alpha 700" "c_alpha 700 \<le> 0.022" using c_alpha_bounds [of 700] by simp_all
  let ?w = "(0.76 - c_alpha 700) / (6.67 - c_alpha 700) * 100"
  have span: "\<not> 6.67 - c_alpha 700 < EPS" using a by (simp add: EPS_def)
  have w: "0 \<le> ?w" "?w \<le> 100" using a by (simp_all add: field_simps)
  have "equilibrium 0.76 700 =
      lever 0.76 ''alpha_Fe3C'' Ferrite Cementite (c_alpha 700) 6.67"
    using a by (simp add: equilibrium_def Let_def)
  then show ?thesis using span w by (simp add: lever_cases)
qed

lemma cementite_share_eutectoid:
  "11 < (0.76 - c_alpha 700) / (6.67 - c_alpha 700) * 100 \<and>
   (0.76 - c_alpha 700) / (6.67 - c_alpha 700) * 100 < 12"
  by (simp add: c_alpha_700 field_simps)

lemma getState_eutectoid:
  "getState 0.76 700 0 = Some (finish_state 0.76 700 0 ''alpha_Fe3C''
     [\<lparr>name = Ferrite,
       frac = 100 - (0.76 - c_alpha 700) / (6.67 - c_alpha 700) * 100,
       pos = c_alpha 700\<rparr>,
      \<lparr>name = Cementite,
       frac = (0.76 - c_alpha 700) / (6.67 - c_alpha 700) * 100,
       pos = 6.67\<rparr>])"
proof -
  define w where "w = (0.76 - c_alpha 700) / (6.67 - c_alpha 700) * 100"
  let ?fr = "[\<lparr>name = Ferrite, frac = 100 - w, pos = c_alpha 700\<rparr>,
              \<lparr>name = Cementite, frac = w, pos = 6.67\<rparr>]"
  have c: "safe_carbon 0.76 = 0.76" "safe_temp 700 = 700"
    by (simp_all add: safe_carbon_def safe_temp_def)
  have e: "equilibrium (safe_carbon 0.76) (safe_temp 700) = Some (''alpha_Fe3C'', ?fr)"
    unfolding c w_def by (rule equilibrium_eutectoid)
  have t: "total_frac ?fr = 100" by (simp add: total_frac_two)
  show ?thesis
    using getState_finish [OF e t, of 0] unfolding c w_def .
qed

lemma not_quenched_eutectoid: "\<not> quench_cond 0 0.76 700"
  by (simp add: quench_cond_def)

section \<open>Continuity of the delta solidus\<close>

lemma c_delta_solidus_near_peritectic:
  assumes "1394 < T" and "T < 1538"
  shows "c_delta_solidus T = min (0.09 * ((1538 - T) / 43)) (0.09 * ((T - 1394) / 101))"
  using assms by (simp add: c_delta_solidus_def min_def)

lemma c_delta_solidus_isCont: "isCont c_delta_solidus 1495"
proof -
  let ?g = "\<lambda>T::real. min (0.09 * ((1538 - T) / 43)) (0.09 * ((T - 1394) / 101))"
  have "eventually (\<lambda>T. c_delta_solidus T = ?g T) (nhds 1495)"
  proof (rule eventually_nhds_in_open [of "{1394 <..< 1538}", THEN eventually_mono])
    show "open {1394 <..< (1538::real)}" by simp
    show "(1495::real) \<in> {1394 <..< 1538}" by simp
    show "c_delta_solidus T = ?g T" if "T \<in> {1394 <..< 1538}" for T
      using that by (simp add: c_delta_solidus_near_peritectic)
  qed
  moreover have "isCont ?g 1495" by (intro continuous_intros) simp_all
  ultimately show ?thesis by (simp add: isCont_cong)
qed

section \<open>The solver on numbers extends the solver on reals\<close>

lemma num_real_ops [simp]:
  "num_sub (Num a) (Num b) = Num (a - b)"
  "num_le (Num a) (Num b) = (a \<le> b)"
  "num_gt (Num a) (Num b) = (b < a)"
  "num_ge (Num a) (Num b) = (b \<le> a)"
  "Math_max (Num a) (Num b) = Num (max a b)"
  "Math_min (Num a) (Num b) = Num (min a b)"
  by (auto simp: num_sub_def num_le_def num_gt_def num_ge_def Math_max_def Math_min_def)

lemma num_real_arith:
  "num_add (Num a) (Num b) = Num (a + b)"
  "num_mul (Num a) (Num b) = Num (a * b)"
  "num_lt (Num a) (Num b) = (a < b)"
  "num_div (Num a) (Num 101) = Num (a / 101)"
  by simp_all

lemma num_div_real: "b \<noteq> 0 \<Longrightarrow> num_div (Num a) (Num b) = Num (a / b)"
  by simp

lemma Math_pow_num_real: "0 \<le> b \<Longrightarrow> Math_pow_num (Num b) e = Num (Math_pow b e)"
  by simp

lemma c_alpha_num_real: "c_alpha_num (Num T) = Num (c_alpha T)"
  by (simp add: c_alpha_num_def c_alpha_def)

lemma c_a3_num_real: "c_a3_num (Num T) = Num (c_a3 T)"
  by (simp add: c_a3_num_def c_a3_def)

lemma c_acm_num_real: "c_acm_num (Num T) = Num (c_acm T)"
  by (simp add: c_acm_num_def c_acm_def)

lemma c_solidus_num_real: "c_solidus_num (Num T) = Num (c_solidus T)"
  by (simp add: c_solidus_num_def c_solidus_def)

lemma c_liquidus_num_real: "c_liquidus_num (Num T) = Num (c_liquidus T)"
  by (simp add: c_liquidus_num_def c_liquidus_def)

lemma c_l_fe3c_num_real: "c_l_fe3c_num (Num T) = Num (c_l_fe3c T)"
  by (simp add: c_l_fe3c_num_def c_l_fe3c_def)

lemma c_delta_solidus_num_real: "c_delta_solidus_num (Num T) = Num (c_delta_solidus T)"
  by (simp add: c_delta_solidus_num_def c_delta_solidus_def)

lemma c_delta_liquidus_num_real: "c_delta_liquidus_num (Num T) = Num (c_delta_liquidus T)"
  by (simp add: c_delta_liquidus_num_def c_delta_liquidus_def)

lemmas curves_num_real =
  c_alpha_num_real c_a3_num_real c_acm_num_real c_solidus_num_real c_liquidus_num_real
  c_l_fe3c_num_real c_delta_solidus_num_real c_delta_liquidus_num_real

lemma lever_num_real:
  "map_option result_num (lever safeC rid name1 name2 c1 c2) =
   Some (lever_num (Num safeC) rid name1 name2 (Num c1) (Num c2))"
  by (simp add: lever_cases lever_num_def result_num_def fraction_num_def EPS_def Let_def)

lemma single_num_real:
  "map_option result_num (single safeC rid nm) = Some (single_num (Num safeC) rid nm)"
  by (simp add: single_def single_num_def result_num_def fraction_num_def)

lemma agree_if:
  "(b \<Longrightarrow> map_option result_num x = Some x') \<Longrightarrow>
   (\<not> b \<Longrightarrow> map_option result_num y = Some y') \<Longrightarrow>
   map_option result_num (if b then x else y) = Some (if b then x' else y')"
  by simp

lemma equilibrium_num_real:
  "map_option result_num (equilibrium safeC safeT) =
   Some (equilibrium_num (Num safeC) (Num safeT))"
  unfolding equilibrium_def equilibrium_num_def Let_def curves_num_real num_real_ops
    num_real_arith
  by (intro agree_if lever_num_real single_num_real)

lemma foldl_frac_num:
  "foldl (\<lambda>sum f. num_add sum (frac_n f)) (Num a) (map fraction_num fs) =
   Num (foldl (\<lambda>sum f. sum + frac f) a fs)"
  by (induction fs arbitrary: a) (simp_all add: fraction_num_def)

lemma total_frac_num_real: "total_frac_num (map fraction_num fs) = Num (total_frac fs)"
  by (simp add: total_frac_num_def total_frac_def foldl_frac_num)

lemma renormalize_num_exact:
  "total_frac fs = 100 \<Longrightarrow> renormalize_num (map fraction_num fs) = map fraction_num fs"
  by (simp add: renormalize_num_def total_frac_num_real EPS_def)

lemma ms_of_num_real: "ms_of_num (Num safeC) = Num (ms_of safeC)"
  by (simp add: ms_of_num_def ms_of_def)

lemma quench_cond_num_real:
  "quench_cond_num (Num rate) (Num safeC) (Num safeT) = quench_cond rate safeC safeT"
  by (simp add: quench_cond_num_def quench_cond_def ms_of_num_real)

lemma fm_of_num_real: "fm_of_num (Num safeC) (Num safeT) = Num (fm_of safeC safeT)"
  by (simp add: fm_of_num_def fm_of_def ms_of_num_real)

lemma martensite_fractions_num_real:
  "martensite_fractions_num (Num safeC) (Num safeT) =
   map fraction_num (martensite_fractions safeC safeT)"
  by (simp add: martensite_fractions_num_def martensite_fractions_def fm_of_num_real
      fraction_num_def Let_def)

lemma region_label_num_real:
  "region_label_num quenched rid (Num safeC) = region_label quenched rid safeC"
  by (simp add: region_label_num_def region_label_def)

lemma find_fraction_num:
  "find (\<lambda>f. str_includes (name_n f) t) (map fraction_num fs) =
   map_option fraction_num (find (\<lambda>f. str_includes (name f) t) fs)"
  by (induction fs) (simp_all add: fraction_num_def)

lemma share_of_num_real: "share_of_num t (map fraction_num fs) = Num (share_of t fs)"
  by (simp add: share_of_num_def share_of_def find_fraction_num fraction_num_def Let_def
      split: option.splits)

lemma predictProperties_num_real:
  "predictProperties_num (Num c) (Num T) (map fraction_num fs) quenched =
   properties_num_of (predictProperties c T fs quenched)"
  by (simp add: predictProperties_num_def predictProperties_def properties_num_of_def
      share_of_num_real Let_def)

lemma finish_state_num_real:
  "finish_state_num (Num safeC) (Num safeT) (Num rate) rid0 (map fraction_num fr1) =
   state_num (finish_state safeC safeT rate rid0 fr1)"
  by (simp add: finish_state_num_def finish_state_def state_num_def quench_cond_num_real
      martensite_fractions_num_real region_label_num_real predictProperties_num_real
      properties_num_of_def ms_of_num_real Let_def)

lemma safe_num_real:
  "safe_carbon_num (Num c) = Num (safe_carbon c)"
  "safe_temp_num (Num T) = Num (safe_temp T)"
  by (simp_all add: safe_carbon_num_def safe_carbon_def safe_temp_num_def safe_temp_def)

text \<open>On real arguments the solver on numbers returns the state of the solver on reals.\<close>

lemma getState_num_real:
  "\<exists>s. getState c T rate = Some s \<and> getState_num (Num c) (Num T) (Num rate) = state_num s"
proof -
  obtain rid0 fr0 where
    e: "equilibrium (safe_carbon c) (safe_temp T) = Some (rid0, fr0)"
    and t: "total_frac fr0 = 100"
    and g: "getState c T rate = Some (finish_state (safe_carbon c) (safe_temp T) rate rid0 fr0)"
    by (rule getState_ex)
  from equilibrium_num_real [of "safe_carbon c" "safe_temp T"] e
  have "equilibrium_num (Num (safe_carbon c)) (Num (safe_temp T)) = (rid0, map fraction_num fr0)"
    by (simp add: result_num_def)
  then have "getState_num (Num c) (Num T) (Num rate) =
      state_num (finish_state (safe_carbon c) (safe_temp T) rate rid0 fr0)"
    by (simp add: getState_num_def safe_num_real renormalize_num_exact [OF t]
        finish_state_num_real)
  with g show ?thesis by simp
qed

text \<open>An infinite carbon content or temperature and any cooling rate act as a real one.\<close>

lemma safe_carbon_num_finite: "c \<noteq> NaN \<Longrightarrow> \<exists>c'. safe_carbon_num c = safe_carbon_num (Num c')"
proof (cases c)
  case NegInf
  then have "safe_carbon_num c = safe_carbon_num (Num 0)"
    by (simp add: safe_carbon_num_def Math_max_def Math_min_def)
  then show ?thesis ..
next
  case PosInf
  then have "safe_carbon_num c = safe_carbon_num (Num 6.67)"
    by (simp add: safe_carbon_num_def Math_max_def Math_min_def)
  then show ?thesis ..
qed auto

lemma safe_temp_num_finite:
  "T \<noteq> NaN \<Longrightarrow> T \<noteq> PosInf \<Longrightarrow> \<exists>T'. safe_temp_num T = safe_temp_num (Num T')"
proof (cases T)
  case NegInf
  then have "safe_temp_num T = safe_temp_num (Num 0)"
    by (simp add: safe_temp_num_def Math_max_def)
  then show ?thesis ..
qed auto

lemma getState_num_clamped:
  "safe_carbon_num c = safe_carbon_num c' \<Longrightarrow> safe_temp_num T = safe_temp_num T' \<Longrightarrow>
   getState_num c T rate = getState_num c' T' rate"
  by (simp add: getState_num_def)

lemma quench_cond_num_rate:
  "\<exists>r. \<forall>safeC safeT. quench_cond_num rate safeC safeT = quench_cond_num (Num r) safeC safeT"
proof (cases rate)
  case (Num r)
  then show ?thesis by blast
next
  case PosInf
  then have "\<forall>safeC safeT. quench_cond_num rate safeC safeT = quench_cond_num (Num 50) safeC safeT"
    by (simp add: quench_cond_num_def num_ge_def num_le_def)
  then show ?thesis ..
next
  case NaN
  then have "\<forall>safeC safeT. quench_cond_num rate safeC safeT = quench_cond_num (Num 0) safeC safeT"
    by (simp add: quench_cond_num_def num_ge_def num_le_def)
  then show ?thesis ..
next
  case NegInf
  then have "\<forall>safeC safeT. quench_cond_num rate safeC safeT = quench_cond_num (Num 0) safeC safeT"
    by (simp add: quench_cond_num_def num_ge_def num_le_def)
  then show ?thesis ..
qed

lemma getState_num_rate: "\<exists>r. getState_num c T rate = getState_num c T (Num r)"
proof -
  from quench_cond_num_rate [of rate] obtain r where
    "\<And>safeC safeT. quench_cond_num rate safeC safeT = quench_cond_num (Num r) safeC safeT"
    by blast
  then have "getState_num c T rate = getState_num c T (Num r)"
    by (simp add: getState_num_def finish_state_num_def)
  then show ?thesis ..
qed

lemma getState_num_hot: "getState_num (Num c) PosInf (Num r) = getState_num (Num c) (Num 1538) (Num r)"
proof -
  have t: "safe_temp_num PosInf = PosInf" "safe_temp_num (Num 1538) = Num 1538"
    by (simp_all add: safe_temp_num_def Math_max_def)
  have c: "0 \<le> safe_carbon c" by (simp add: safe_carbon_def)
  have e: "equilibrium_num safeC PosInf = single_num safeC ''L'' ''Liquid''"
    "equilibrium_num safeC (Num 1538) = single_num safeC ''L'' ''Liquid''" for safeC
    by (simp_all add: equilibrium_num_def num_ge_def num_le_def)
  have q: "\<not> quench_cond_num (Num r) (Num (safe_carbon c)) PosInf"
    "\<not> quench_cond_num (Num r) (Num (safe_carbon c)) (Num 1538)"
    using c by (simp_all add: quench_cond_num_def ms_of_num_def)
  have p: "predictProperties_num safeC PosInf fs False =
      predictProperties_num safeC (Num 1538) fs False" for safeC fs
    by (simp add: predictProperties_num_def num_gt_def)
  show ?thesis
    by (simp add: getState_num_def t e safe_num_real(1) finish_state_num_def q p Let_def)
qed

lemma getState_num_finite:
  assumes "c \<noteq> NaN" and "T \<noteq> NaN"
  shows "\<exists>c' T' r'. getState_num c T rate = getState_num (Num c') (Num T') (Num r')"
proof -
  obtain r where r: "getState_num c T rate = getState_num c T (Num r)"
    using getState_num_rate by blast
  obtain c' where c': "safe_carbon_num c = safe_carbon_num (Num c')"
    using safe_carbon_num_finite [OF assms(1)] by blast
  show ?thesis
  proof (cases "T = PosInf")
    case True
    have "getState_num c T (Num r) = getState_num (Num c') PosInf (Num r)"
      using c' True by (intro getState_num_clamped) simp_all
    with r getState_num_hot [of c' r] show ?thesis by metis
  next
    case False
    then obtain T' where "safe_temp_num T = safe_temp_num (Num T')"
      using safe_temp_num_finite [OF assms(2)] by blast
    with c' have "getState_num c T (Num r) = getState_num (Num c') (Num T') (Num r)"
      by (intro getState_num_clamped)
    with r show ?thesis by metis
  qed
qed

lemma getState_num_sound:
  assumes "c \<noteq> NaN" and "T \<noteq> NaN"
  shows "\<exists>c' T' r' s. getState c' T' r' = Some s \<and> getState_num c T rate = state_num s"
proof -
  from getState_num_finite [OF assms, of rate] obtain c' T' r' where
    "getState_num c T rate = getState_num (Num c') (Num T') (Num r')" by blast
  with getState_num_real [of c' T' r'] show ?thesis by metis
qed

lemma getState_sum_exact: "getState c T rate = Some s \<Longrightarrow> total_frac (fractions s) = 100"
proof -
  assume s: "getState c T rate = Some s"
  obtain rid0 fr0 where t: "total_frac fr0 = 100"
    and g: "getState c T rate = Some (finish_state (safe_carbon c) (safe_temp T) rate rid0 fr0)"
    by (rule getState_ex)
  have "total_frac (fractions (finish_state (safe_carbon c) (safe_temp T) rate rid0 fr0)) = 100"
    by (simp add: finish_state_fields t martensite_total)
  with g s show ?thesis by simp
qed

lemma equilibrium_num_NaN_carbon:
  "equilibrium_num NaN (Num 700) =
     (''alpha_Fe3C'',
      [\<lparr>name_n = Ferrite, frac_n = NaN, pos_n = Num (c_alpha 700)\<rparr>,
       \<lparr>name_n = Cementite, frac_n = NaN, pos_n = Num 6.67\<rparr>])"
proof -
  have a: "0 \<le> c_alpha 700" "c_alpha 700 \<le> 0.022" using c_alpha_bounds [of 700] by simp_all
  have "equilibrium_num NaN (Num 700) =
      lever_num NaN ''alpha_Fe3C'' Ferrite Cementite (Num (c_alpha 700)) (Num 6.67)"
    by (simp add: equilibrium_num_def c_alpha_num_real num_le_def Let_def)
  also have "\<dots> = (''alpha_Fe3C'',
      [\<lparr>name_n = Ferrite, frac_n = NaN, pos_n = Num (c_alpha 700)\<rparr>,
       \<lparr>name_n = Cementite, frac_n = NaN, pos_n = Num 6.67\<rparr>])"
    using a by (simp add: lever_num_def EPS_def num_sub_def Math_max_def Math_min_def Let_def)
  finally show ?thesis .
qed

section \<open>Properties of the solver\<close>

text \<open>
  C1, as stated, fails at a carbon content that is not a number: \<open>getState(NaN, 700, 0)\<close>
  passes \<^verbatim>\<open>NaN\<close> through both clamps and the lever rule, both fractions are \<^verbatim>\<open>NaN\<close>,
  and so is their sum.
\<close>

theorem getState_NaN_counterexample:
  "map frac_n (fractions_n (getState_num NaN (Num 700) (Num 0))) = [NaN, NaN] \<and>
   total_frac_num (fractions_n (getState_num NaN (Num 700) (Num 0))) = NaN"
proof -
  have c: "safe_carbon_num NaN = NaN" "safe_temp_num (Num 700) = Num 700"
    by (simp_all add: safe_carbon_num_def safe_temp_num_def Math_max_def Math_min_def)
  have q: "\<not> quench_cond_num (Num 0) NaN (Num 700)"
    by (simp add: quench_cond_num_def)
  have "fractions_n (getState_num NaN (Num 700) (Num 0)) =
      [\<lparr>name_n = Ferrite, frac_n = NaN, pos_n = Num (c_alpha 700)\<rparr>,
       \<lparr>name_n = Cementite, frac_n = NaN, pos_n = Num 6.67\<rparr>]"
    by (simp add: getState_num_def c equilibrium_num_NaN_carbon finish_state_num_def q
        renormalize_num_def total_frac_num_def num_sub_def num_gt_def Let_def)
  then show ?thesis by (simp add: total_frac_num_def)
qed

text \<open>
  C1, amended. For every input triple whose carbon content and temperature are not
  \<^verbatim>\<open>NaN\<close> (they may be infinite, and the cooling rate may be any number, \<^verbatim>\<open>NaN\<close>
  included), the fractions of the state returned by \<open>getState\<close> add up to 100 within
  \<open>10\<^sup>-\<^sup>6\<close>: after the clamps of the lever rule and the renormalisation, and also
  when the martensite pair replaces the equilibrium fractions.
\<close>

theorem getState_num_fractions_sum:
  assumes "c \<noteq> NaN" and "T \<noteq> NaN"
  shows "\<exists>x. total_frac_num (fractions_n (getState_num c T rate)) = Num x \<and>
           \<bar>x - 100\<bar> \<le> 1 / 1000000"
proof -
  from getState_num_sound [OF assms, of rate] obtain c' T' r' s where
    g: "getState c' T' r' = Some s" and n: "getState_num c T rate = state_num s" by blast
  have "total_frac_num (fractions_n (getState_num c T rate)) = Num (total_frac (fractions s))"
    by (simp add: n state_num_def total_frac_num_real)
  with getState_sum_exact [OF g] show ?thesis by simp
qed

text \<open>An infinite carbon content and temperature with a cooling rate that is not a
  number, through the theorem.\<close>

theorem getState_num_fractions_sum_witness:
  "PosInf \<noteq> NaN \<and> NegInf \<noteq> NaN \<and>
   (\<exists>x. total_frac_num (fractions_n (getState_num PosInf NegInf NaN)) = Num x \<and>
        \<bar>x - 100\<bar> \<le> 1 / 1000000)"
  using getState_num_fractions_sum [of PosInf NegInf NaN] by simp

text \<open>
  C2. The returned state is quenched exactly when the cooling rate is at least 50, the
  clamped carbon is below 2.0 and the clamped temperature is below
  \<open>Ms = 539 - 423 * carbon\<close>. A quenched state has the region \<open>martensite\<close> and the pair
  \<open>Martensite (BCT)\<close> at \<open>fm * 100\<close> and \<open>Retained Austenite\<close> at \<open>(1 - fm) * 100\<close>, with
  \<open>fm = clamp (1 - exp (- 0.011 * (Ms - T))) 0 1\<close>, whatever the equilibrium region was.
  \<open>getState(0.4, 100, 10)\<close> is not quenched, \<open>getState(0.4, 100, 150)\<close> is, and
  \<open>getState(2.5, 100, 150)\<close> is not.
\<close>

theorem getState_quench:
  "(\<exists>s. getState c T rate = Some s \<and>
      (isQuenched s \<longleftrightarrow>
         rate \<ge> 50 \<and> safe_carbon c < 2.0 \<and> safe_temp T < 539 - 423 * safe_carbon c) \<and>
      (isQuenched s \<longrightarrow>
         regionId s = ''martensite'' \<and>
         fractions s =
           [\<lparr>name = ''Martensite (BCT)'',
             frac = max 0 (min 1 (1 - exp (- 0.011 * (539 - 423 * safe_carbon c - safe_temp T)))) * 100,
             pos = safe_carbon c\<rparr>,
            \<lparr>name = ''Retained Austenite'',
             frac = (1 - max 0 (min 1 (1 - exp (- 0.011 * (539 - 423 * safe_carbon c - safe_temp T))))) * 100,
             pos = safe_carbon c\<rparr>])) \<and>
   (\<exists>s. getState 0.4 100 10 = Some s \<and> \<not> isQuenched s) \<and>
   (\<exists>s. getState 0.4 100 150 = Some s \<and> isQuenched s) \<and>
   (\<exists>s. getState 2.5 100 150 = Some s \<and> \<not> isQuenched s)"
proof -
  have q: "\<exists>s. getState c T rate = Some s \<and>
      isQuenched s = quench_cond rate (safe_carbon c) (safe_temp T) \<and>
      (isQuenched s \<longrightarrow> regionId s = ''martensite'' \<and>
         fractions s = martensite_fractions (safe_carbon c) (safe_temp T))" for c T rate
  proof -
    obtain rid0 fr0 where
      "getState c T rate = Some (finish_state (safe_carbon c) (safe_temp T) rate rid0 fr0)"
      by (rule getState_ex)
    then show ?thesis by (simp add: finish_state_fields)
  qed
  have general: "\<exists>s. getState c T rate = Some s \<and>
      (isQuenched s \<longleftrightarrow>
         rate \<ge> 50 \<and> safe_carbon c < 2.0 \<and> safe_temp T < 539 - 423 * safe_carbon c) \<and>
      (isQuenched s \<longrightarrow>
         regionId s = ''martensite'' \<and>
         fractions s =
           [\<lparr>name = ''Martensite (BCT)'',
             frac = max 0 (min 1 (1 - exp (- 0.011 * (539 - 423 * safe_carbon c - safe_temp T)))) * 100,
             pos = safe_carbon c\<rparr>,
            \<lparr>name = ''Retained Austenite'',
             frac = (1 - max 0 (min 1 (1 - exp (- 0.011 * (539 - 423 * safe_carbon c - safe_temp T))))) * 100,
             pos = safe_carbon c\<rparr>])"
    using q [of c T rate]
    by (simp add: quench_cond_def ms_of_def martensite_fractions_def fm_of_def Let_def)
  have slow: "\<exists>s. getState 0.4 100 10 = Some s \<and> \<not> isQuenched s"
    using q [of "0.4" 100 10] by (auto simp: quench_cond_def)
  have fast: "\<exists>s. getState 0.4 100 150 = Some s \<and> isQuenched s"
    using q [of "0.4" 100 150]
    by (auto simp: quench_cond_def ms_of_def safe_carbon_def safe_temp_def)
  have cast: "\<exists>s. getState 2.5 100 150 = Some s \<and> \<not> isQuenched s"
    using q [of "2.5" 100 150] by (auto simp: quench_cond_def safe_carbon_def)
  from general slow fast cast show ?thesis by blast
qed

text \<open>The quench at \<open>(0.4, 100, 150)\<close>, through the theorem.\<close>

theorem getState_quench_witness:
  "\<exists>s. getState 0.4 100 150 = Some s \<and> isQuenched s \<and> regionId s = ''martensite'' \<and>
     map name (fractions s) = [''Martensite (BCT)'', ''Retained Austenite'']"
proof -
  from getState_quench [of "0.4" 100 150]
  obtain s where s: "getState 0.4 100 150 = Some s"
    and i: "isQuenched s \<longleftrightarrow>
       (150::real) \<ge> 50 \<and> safe_carbon 0.4 < 2.0 \<and> safe_temp 100 < 539 - 423 * safe_carbon 0.4"
    and f: "isQuenched s \<longrightarrow> regionId s = ''martensite'' \<and>
         fractions s =
           [\<lparr>name = ''Martensite (BCT)'',
             frac = max 0 (min 1 (1 - exp (- 0.011 * (539 - 423 * safe_carbon 0.4 - safe_temp 100)))) * 100,
             pos = safe_carbon 0.4\<rparr>,
            \<lparr>name = ''Retained Austenite'',
             frac = (1 - max 0 (min 1 (1 - exp (- 0.011 * (539 - 423 * safe_carbon 0.4 - safe_temp 100))))) * 100,
             pos = safe_carbon 0.4\<rparr>]"
    by blast
  have "isQuenched s" using i by (simp add: safe_carbon_def safe_temp_def)
  with s f show ?thesis by simp
qed

text \<open>
  C3, as stated, fails: at 750 degrees the tie line of ferrite and austenite does not end
  at 0.022 and 0.76, and the state at carbon 0.41 holds more than 51 percent austenite.
\<close>

theorem lever_midpoint_750_counterexample:
  "c_alpha 750 < 0.022 \<and> c_a3 750 < 0.76 \<and>
   getState 0.41 750 0 \<noteq> None \<and>
   map name (fractions (the (getState 0.41 750 0))) = [Ferrite, Austenite] \<and>
   51 < frac (fractions (the (getState 0.41 750 0)) ! 1)"
proof -
  have a: "c_alpha 750 < 0.022" by (simp add: c_alpha_750)
  have b: "c_a3 750 < 0.76" using c_a3_750 by simp
  have w: "51 < (0.41 - c_alpha 750) / (c_a3 750 - c_alpha 750) * 100"
    using austenite_share_750 by linarith
  show ?thesis
    unfolding getState_750 option.sel finish_state_fields
    using a b w not_quenched_750 by simp
qed

text \<open>
  C3, amended. At 750 degrees the tie line of the ferrite and austenite region runs from
  \<open>c_alpha(750) = 0.022 * 162 / 185\<close> (about 0.0193) to
  \<open>c_a3(750) = 0.76 * (162 / 185)\<^sup>1\<^sup>.\<^sup>2\<close> (about 0.648), so \<open>getState(0.41, 750, 0)\<close> is
  the region \<open>alpha_gamma\<close> with the lever-rule fractions of these end points: between 37
  and 38 percent ferrite and between 62 and 63 percent austenite.
\<close>

theorem lever_750:
  "c_alpha 750 = 0.022 * (162 / 185) \<and>
   c_a3 750 = 0.76 * Math_pow (162 / 185) 1.2 \<and>
   0.6475 < c_a3 750 \<and> c_a3 750 < 0.6487 \<and>
   (\<exists>s. getState 0.41 750 0 = Some s \<and>
      regionId s = ''alpha_gamma'' \<and>
      map name (fractions s) = [Ferrite, Austenite] \<and>
      map pos (fractions s) = [c_alpha 750, c_a3 750] \<and>
      map frac (fractions s) =
        [100 - (0.41 - c_alpha 750) / (c_a3 750 - c_alpha 750) * 100,
         (0.41 - c_alpha 750) / (c_a3 750 - c_alpha 750) * 100]) \<and>
   62 < (0.41 - c_alpha 750) / (c_a3 750 - c_alpha 750) * 100 \<and>
   (0.41 - c_alpha 750) / (c_a3 750 - c_alpha 750) * 100 < 63"
proof -
  have a3: "c_a3 750 = 0.76 * Math_pow (162 / 185) 1.2" by (simp add: c_a3_def)
  have s: "\<exists>s. getState 0.41 750 0 = Some s \<and>
      regionId s = ''alpha_gamma'' \<and>
      map name (fractions s) = [Ferrite, Austenite] \<and>
      map pos (fractions s) = [c_alpha 750, c_a3 750] \<and>
      map frac (fractions s) =
        [100 - (0.41 - c_alpha 750) / (c_a3 750 - c_alpha 750) * 100,
         (0.41 - c_alpha 750) / (c_a3 750 - c_alpha 750) * 100]"
    unfolding getState_750 using not_quenched_750
    by (simp add: finish_state_fields del: divide_eq_eq_numeral1)
  from c_alpha_750 a3 c_a3_750 s austenite_share_750 show ?thesis by blast
qed

text \<open>
  C4. The claim holds of seven curves and breaks on the liquid and cementite boundary:
  \<open>c_l_fe3c\<close> returns its constant only below its band and follows its line without
  bound above it, where every other curve returns a constant on both sides. At 1538
  degrees, inside the stated domain, it returns about 13.3, above the limit 6.67.
\<close>

theorem c_l_fe3c_at_1538:
  "(0::real) \<le> 1538 \<and> (1538::real) \<le> 1538 \<and>
   c_l_fe3c 1538 = 4.3 + (6.67 - 4.3) * (391 / 103) \<and>
   13 < c_l_fe3c 1538 \<and> 6.67 < c_l_fe3c 1538"
  by (simp add: c_l_fe3c_def)

text \<open>
  C5. Adjacent curves agree at their shared anchor temperature within \<open>10\<^sup>-\<^sup>3\<close>:
  \<open>c_a3\<close> and \<open>c_alpha\<close> at 912, \<open>c_acm\<close> and \<open>c_solidus\<close> at 1147, \<open>c_liquidus\<close> and
  \<open>c_l_fe3c\<close> at 1147, the two pieces of \<open>c_delta_solidus\<close> at 1495 (where the curve is
  continuous), and \<open>c_delta_liquidus\<close> and \<open>c_liquidus\<close> at 1495.
\<close>

theorem curves_continuous:
  "\<bar>c_a3 912 - c_alpha 912\<bar> \<le> 1 / 1000 \<and>
   \<bar>c_acm 1147 - c_solidus 1147\<bar> \<le> 1 / 1000 \<and>
   \<bar>c_liquidus 1147 - c_l_fe3c 1147\<bar> \<le> 1 / 1000 \<and>
   \<bar>0.09 * ((1495 - 1394) / 101) - c_delta_solidus 1495\<bar> \<le> 1 / 1000 \<and>
   isCont c_delta_solidus 1495 \<and>
   \<bar>c_delta_liquidus 1495 - c_liquidus 1495\<bar> \<le> 1 / 1000"
proof -
  have "c_a3 912 = 0" "c_alpha 912 = 0"
    by (simp_all add: c_a3_def c_alpha_def Math_pow_def)
  moreover have "c_acm 1147 = 2.11" "c_solidus 1147 = 2.11"
    by (simp_all add: c_acm_def c_solidus_def Math_pow_def)
  moreover have "c_liquidus 1147 = 4.3" "c_l_fe3c 1147 = 4.3"
    by (simp_all add: c_liquidus_def c_l_fe3c_def Math_pow_def)
  moreover have "c_delta_solidus 1495 = 0.09"
    by (simp add: c_delta_solidus_def)
  moreover have "c_delta_liquidus 1495 = 0.53" "c_liquidus 1495 = 0.53"
    by (simp_all add: c_delta_liquidus_def c_liquidus_def Math_pow_def)
  ultimately show ?thesis using c_delta_solidus_isCont by simp
qed

text \<open>
  C6. Inputs out of range saturate and the solver still returns a state: carbon \<open>-5\<close>
  gives the fractions of carbon 0, carbon 10 gives the state of carbon 6.67, and a
  negative temperature gives the state of temperature 0.
\<close>

theorem getState_saturates:
  "map_option fractions (getState (- 5) T r) = map_option fractions (getState 0 T r) \<and>
   getState 10 T r = getState 6.67 T r \<and>
   (Tneg < 0 \<longrightarrow> getState c Tneg r = getState c 0 r) \<and>
   getState (- 5) T r \<noteq> None \<and> getState 10 T r \<noteq> None \<and> getState c Tneg r \<noteq> None"
proof -
  have some: "getState c' T' r' \<noteq> None" for c' T' r'
    by (rule getState_ex [of c' T' r']) simp
  have low: "getState (- 5) T r = getState 0 T r"
    by (simp add: getState_def safe_carbon_def)
  have high: "getState 10 T r = getState 6.67 T r"
    by (simp add: getState_def safe_carbon_def)
  have cold: "getState c Tneg r = getState c 0 r" if "Tneg < 0"
    using that by (simp add: getState_def safe_temp_def)
  from some low high cold show ?thesis by simp
qed

text \<open>A temperature of \<open>-40\<close> degrees, through the theorem.\<close>

theorem getState_saturates_witness:
  "(- 40 :: real) < 0 \<and> getState 0.4 (- 40) 0 = getState 0.4 0 0 \<and>
   getState 0.4 (- 40) 0 \<noteq> None"
proof -
  have neg: "(- 40 :: real) < 0" by simp
  from getState_saturates [where T = 0 and r = 0 and Tneg = "- 40" and c = "0.4"] neg
  have "getState 0.4 (- 40) 0 = getState 0.4 0 0" and "getState 0.4 (- 40) 0 \<noteq> None"
    by blast+
  with neg show ?thesis by blast
qed

text \<open>
  C7, as stated, fails in its last part: the state at \<open>(0.76, 700, 0)\<close> has two phase
  fractions, both positive, and is not single phase.
\<close>

theorem eutectoid_point_counterexample:
  "getState 0.76 700 0 \<noteq> None \<and>
   length (fractions (the (getState 0.76 700 0))) = 2 \<and>
   0 < frac (fractions (the (getState 0.76 700 0)) ! 0) \<and>
   0 < frac (fractions (the (getState 0.76 700 0)) ! 1)"
proof -
  have "0 < (0.76 - c_alpha 700) / (6.67 - c_alpha 700) * 100"
    and "0 < 100 - (0.76 - c_alpha 700) / (6.67 - c_alpha 700) * 100"
    using cementite_share_eutectoid by linarith+
  then show ?thesis
    unfolding getState_eutectoid option.sel finish_state_fields
    using not_quenched_eutectoid by simp
qed

text \<open>
  C7, amended. \<open>getState(0.76, 700, 0)\<close> has the region \<open>alpha_Fe3C\<close>, the label
  \<open>Eutectoid (Pearlite)\<close> and the microstructure \<open>100% Pearlite (Lamellar)\<close>; it is the
  two-phase lever-rule state of ferrite and cementite, with between 11 and 12 percent
  cementite.
\<close>

theorem eutectoid_point:
  "(\<exists>s. getState 0.76 700 0 = Some s \<and>
      regionId s = ''alpha_Fe3C'' \<and>
      regionLabel s = ''Eutectoid (Pearlite)'' \<and>
      micro s = ''100% Pearlite (Lamellar)'' \<and>
      \<not> isQuenched s \<and>
      map name (fractions s) = [Ferrite, Cementite] \<and>
      map pos (fractions s) = [c_alpha 700, 6.67] \<and>
      map frac (fractions s) =
        [100 - (0.76 - c_alpha 700) / (6.67 - c_alpha 700) * 100,
         (0.76 - c_alpha 700) / (6.67 - c_alpha 700) * 100]) \<and>
   11 < (0.76 - c_alpha 700) / (6.67 - c_alpha 700) * 100 \<and>
   (0.76 - c_alpha 700) / (6.67 - c_alpha 700) * 100 < 12"
proof -
  have s: "\<exists>s. getState 0.76 700 0 = Some s \<and>
      regionId s = ''alpha_Fe3C'' \<and>
      regionLabel s = ''Eutectoid (Pearlite)'' \<and>
      micro s = ''100% Pearlite (Lamellar)'' \<and>
      \<not> isQuenched s \<and>
      map name (fractions s) = [Ferrite, Cementite] \<and>
      map pos (fractions s) = [c_alpha 700, 6.67] \<and>
      map frac (fractions s) =
        [100 - (0.76 - c_alpha 700) / (6.67 - c_alpha 700) * 100,
         (0.76 - c_alpha 700) / (6.67 - c_alpha 700) * 100]"
    unfolding getState_eutectoid using not_quenched_eutectoid
    by (simp add: finish_state_def region_label_def predictProperties_def Let_def
        del: divide_eq_eq_numeral1)
  from s cementite_share_eutectoid show ?thesis by blast
qed

text \<open>
  C8. With \<open>EPS = 10\<^sup>-\<^sup>5\<close>, a lever-rule evaluation whose span \<open>c2 - c1\<close> is below
  \<open>EPS\<close> performs no division and returns the single fraction of \<open>name1\<close> at 100 with
  position \<open>c1\<close>. No evaluation of the lever rule divides by zero, and \<open>getState\<close>
  returns a state for all inputs (the renormalisation never divides by zero either).
\<close>

theorem lever_guard_total:
  "EPS = 1 / 100000 \<and>
   (c2 - c1 < EPS \<longrightarrow>
      lever safeC rid name1 name2 c1 c2 =
        Some (rid, [\<lparr>name = name1, frac = 100, pos = c1\<rparr>])) \<and>
   lever safeC rid name1 name2 c1 c2 \<noteq> None \<and>
   getState c T rate \<noteq> None"
proof -
  have "getState c T rate \<noteq> None"
    by (rule getState_ex [of c T rate]) simp
  then show ?thesis by (simp add: lever_cases EPS_def)
qed

text \<open>A tie line of width zero, through the theorem.\<close>

theorem lever_guard_total_witness:
  "(2 - 2 :: real) < EPS \<and>
   lever 1 ''gamma_L'' Austenite ''Liquid'' 2 2 =
     Some (''gamma_L'', [\<lparr>name = Austenite, frac = 100, pos = 2\<rparr>]) \<and>
   getState 1 1000 0 \<noteq> None"
  using lever_guard_total [where ?c1.0 = 2 and ?c2.0 = 2 and safeC = 1 and rid = "''gamma_L''"
      and ?name1.0 = Austenite and ?name2.0 = "''Liquid''" and c = 1 and T = 1000 and rate = 0]
  by (simp add: EPS_def)

text \<open>
  C9. \<open>getState(0.45, 1600, 0)\<close> is the region \<open>L\<close> with the single phase \<open>Liquid\<close> at
  100 percent, microstructure \<open>Uniform Liquid\<close>, yield strength, tensile strength and
  hardness 0 and elongation 100.
\<close>

theorem getState_liquid_scenario:
  "getState 0.45 1600 0 =
     Some \<lparr>micro = ''Uniform Liquid'', crystal = ''Amorphous'',
           yield = 0, uts = 0, hardness = 0, elong = 100,
           regionId = ''L'', regionLabel = ''Liquid Melt'',
           fractions = [\<lparr>name = ''Liquid'', frac = 100, pos = 0.45\<rparr>],
           isQuenched = False, msTemp = Some (539 - 423 * 0.45)\<rparr>"
  by (simp add: getState_def safe_carbon_def safe_temp_def equilibrium_def single_def
      renormalize_def total_frac_def EPS_def quench_cond_def ms_of_def predictProperties_def
      region_label_def finish_state_def Let_def)

text \<open>
  C10. For every input the region identifier of the returned state is one of the twelve
  identifiers \<open>L\<close>, \<open>delta\<close>, \<open>delta_L\<close>, \<open>delta_gamma\<close>, \<open>gamma\<close>, \<open>gamma_L\<close>, \<open>L_Fe3C\<close>,
  \<open>alpha\<close>, \<open>alpha_gamma\<close>, \<open>gamma_Fe3C\<close>, \<open>alpha_Fe3C\<close>, \<open>martensite\<close>, and the region label
  is never the fallback \<open>Unknown Region\<close>.
\<close>

theorem getState_region_known:
  "\<exists>s. getState c T rate = Some s \<and>
     regionId s \<in> {''L'', ''delta'', ''delta_L'', ''delta_gamma'', ''gamma'', ''gamma_L'',
       ''L_Fe3C'', ''alpha'', ''alpha_gamma'', ''gamma_Fe3C'', ''alpha_Fe3C'', ''martensite''} \<and>
     regionLabel s \<noteq> ''Unknown Region''"
proof -
  obtain rid0 fr0 where r: "rid0 \<in> equilibrium_ids"
    and g: "getState c T rate = Some (finish_state (safe_carbon c) (safe_temp T) rate rid0 fr0)"
    by (rule getState_ex)
  let ?s = "finish_state (safe_carbon c) (safe_temp T) rate rid0 fr0"
  have "regionId ?s \<in> insert ''martensite'' equilibrium_ids"
    using r by (simp add: finish_state_fields)
  moreover have "regionLabel ?s \<noteq> ''Unknown Region''"
    unfolding finish_state_fields using r by (intro label_known) simp
  ultimately show ?thesis using g by (auto simp: equilibrium_ids_def)
qed

end
